theory Spec2Isabelle
  imports Complex_Main "HOL-Library.Sublist"
begin

section \<open>Go runtime and library vocabulary shared by the plugins\<close>

text \<open>
  A Go function call ends in one of three ways: it returns, it calls \<^verbatim>\<open>os.Exit(n)\<close>,
  or it panics (index out of range, nil dereference).
\<close>

datatype 'a outcome = Returned 'a | Exited nat | Panicked

text \<open>
  Error values. \<open>Errorf\<close> is \<^verbatim>\<open>fmt.Errorf\<close> with a fixed text, \<open>Wrapf\<close> is
  \<^verbatim>\<open>fmt.Errorf("...%s", err)\<close> around another error, \<open>Errorq\<close> is
  \<^verbatim>\<open>fmt.Errorf("...%q", s)\<close> around a string, \<open>NumError\<close> is
  \<^verbatim>\<open>*strconv.NumError\<close> (function, input, cause), and \<open>External\<close> is an error
  produced by a collaborator outside the repository (SDK, operating system, database).
\<close>

datatype numerr = ErrSyntax | ErrRange

datatype error =
    Errorf string
  | Wrapf string error
  | Errorq string string
  | NumError string string numerr
  | External string

text \<open>
  \<^verbatim>\<open>float64\<close>: the comparisons and \<^verbatim>\<open>math.Abs\<close> are exact operations, so they are
  modelled on the value a float denotes: a real number, an infinity, or NaN.
\<close>

datatype float64 = NaN | NegInf | Finite real | PosInf

text \<open>Go slice indexing \<^verbatim>\<open>xs[i]\<close>: out of range is a run-time panic.\<close>

definition elem_at :: "'a list \<Rightarrow> nat \<Rightarrow> 'a option" where
  "elem_at xs i = (if i < length xs then Some (xs ! i) else None)"

text \<open>
  \<^verbatim>\<open>strings.Split(s, sep)\<close> for a separator of one byte, which is what every call
  site passes. The result is never empty: \<^verbatim>\<open>Split("", sep)\<close> is \<^verbatim>\<open>[""]\<close>.
\<close>

fun Split :: "string \<Rightarrow> char \<Rightarrow> string list" where
  "Split [] sep = [[]]"
| "Split (c # cs) sep =
     (if c = sep then [] # Split cs sep
      else (case Split cs sep of [] \<Rightarrow> [[c]] | x # xs \<Rightarrow> (c # x) # xs))"

text \<open>
  \<^verbatim>\<open>strconv.Atoi\<close> with a 64-bit \<^verbatim>\<open>int\<close>: an optional sign, then at least one
  ASCII digit and nothing else; a value outside \<open>[-2^63, 2^63 - 1]\<close> is a range error.
  The digits are read from the left, as \<^verbatim>\<open>strconv.ParseUint\<close> reads them: a byte that
  is no digit is a syntax error, a value that no longer fits 64 bits is a range error,
  whichever comes first.
\<close>

definition isDigit :: "char \<Rightarrow> bool" where
  "isDigit c = (48 \<le> (of_char c :: nat) \<and> (of_char c :: nat) \<le> 57)"

definition digitVal :: "char \<Rightarrow> nat" where
  "digitVal c = (of_char c :: nat) - 48"

fun parseDigits :: "nat \<Rightarrow> string \<Rightarrow> numerr + nat" where
  "parseDigits n [] = Inr n"
| "parseDigits n (c # cs) =
     (if \<not> isDigit c then Inl ErrSyntax
      else if 2 ^ 64 \<le> n * 10 + digitVal c then Inl ErrRange
      else parseDigits (n * 10 + digitVal c) cs)"

definition Atoi :: "string \<Rightarrow> error + int" where
  "Atoi s =
     (let neg = (case s of [] \<Rightarrow> False | c # _ \<Rightarrow> c = CHR ''-'');
          ds = (case s of [] \<Rightarrow> s | c # r \<Rightarrow> if c = CHR ''-'' \<or> c = CHR ''+'' then r else s)
      in if ds = [] then Inl (NumError ''Atoi'' s ErrSyntax)
         else (case parseDigits 0 ds of
                 Inl kind \<Rightarrow> Inl (NumError ''Atoi'' s kind)
               | Inr n \<Rightarrow>
                   if neg then (if 2 ^ 63 < n then Inl (NumError ''Atoi'' s ErrRange)
                                else Inr (- int n))
                   else (if 2 ^ 63 \<le> n then Inl (NumError ''Atoi'' s ErrRange)
                         else Inr (int n))))"

section \<open>The checkers contract\<close>

datatype status = OK | WARNING | CRITICAL | UNKNOWN

text \<open>
  The message of a checker: a text, the text of an error (\<^verbatim>\<open>fmt.Sprint(err)\<close>,
  \<^verbatim>\<open>err.Error()\<close>), or one of the two formatted messages of the NTP plugin, kept with
  their arguments.
\<close>

datatype message =
    Msg string
  | ErrMsg error
  | OverMsg float64 float64
  | WithinMsg float64 float64 float64

record checker =
  Name :: string
  Status :: status
  Message :: message

definition NewChecker :: "status \<Rightarrow> message \<Rightarrow> checker" where
  "NewChecker st msg = \<lparr>Name = [], Status = st, Message = msg\<rparr>"

definition Unknown :: "message \<Rightarrow> checker" where
  "Unknown msg = NewChecker UNKNOWN msg"

text \<open>
  Modelled from the spec: the exit code of each status, which the external package
  \<^verbatim>\<open>checkers\<close> defines (0=OK, 1=WARNING, 2=CRITICAL, 3=UNKNOWN).
\<close>

fun exit_code :: "status \<Rightarrow> nat" where
  "exit_code OK = 0"
| "exit_code WARNING = 1"
| "exit_code CRITICAL = 2"
| "exit_code UNKNOWN = 3"

text \<open>What a process wrote to standard output: plain text, or the status line of a checker.\<close>

datatype printed = Print string | StatusLine checker

text \<open>
  How a plugin process ends: by an \<^verbatim>\<open>os.Exit\<close> of the entry point itself, with
  what it printed before; by an \<^verbatim>\<open>os.Exit\<close> inside a subcommand; or by a panic.
\<close>

datatype process_end = OsExit "printed list" nat | HandlerExited nat | GoPanic

text \<open>
  Modelled from the spec: \<^verbatim>\<open>ckr.Exit()\<close> of the external package \<^verbatim>\<open>checkers\<close>
  prints the one status line and exits with the code of the status.
\<close>

definition checker_Exit :: "checker \<Rightarrow> process_end" where
  "checker_Exit ckr = OsExit [StatusLine ckr] (exit_code (Status ckr))"

section \<open>check-mysql\<close>

record mysqlVersion =
  major :: int
  minor :: int
  patch :: int
  stability :: string

text \<open>
  The four subcommand functions live in other files of the package; the dispatch table
  takes them as parameters. A subcommand returns a checker, exits or panics.
\<close>

record handlers =
  checkReplication :: "string list \<Rightarrow> checker outcome"
  checkConnection :: "string list \<Rightarrow> checker outcome"
  checkUptime :: "string list \<Rightarrow> checker outcome"
  checkReadOnly :: "string list \<Rightarrow> checker outcome"

definition commands :: "handlers \<Rightarrow> (string \<times> (string list \<Rightarrow> checker outcome)) list" where
  "commands h =
     [(''replication'', checkReplication h),
      (''connection'', checkConnection h),
      (''uptime'', checkUptime h),
      (''readonly'', checkReadOnly h)]"

definition separateSub :: "string list \<Rightarrow> string \<times> string list" where
  "separateSub argv =
     (if length argv = 0 \<or> prefix ''-'' (argv ! 0) then ([], argv)
      else (argv ! 0, drop 1 argv))"

text \<open>\<^verbatim>\<open>strings.ToUpper\<close> on one ASCII byte.\<close>

definition toUpperByte :: "char \<Rightarrow> char" where
  "toUpperByte c =
     (if 97 \<le> (of_char c :: nat) \<and> (of_char c :: nat) \<le> 122
      then char_of ((of_char c :: nat) - 32) else c)"

definition usage_header :: string where
  "usage_header =
     ''Usage:'' @ [CHR 0x0A] @ ''  check-mysql [subcommand] [OPTIONS]'' @ [CHR 0x0A]
       @ [CHR 0x0A] @ ''SubCommands:'' @ [CHR 0x0A]"

text \<open>
  \<^verbatim>\<open>Do\<close>. Go leaves the iteration order of \<^verbatim>\<open>range commands\<close> unspecified:
  \<open>order\<close> is the order in which this run visits the keys of the table.
\<close>

definition Do :: "handlers \<Rightarrow> string list \<Rightarrow> string list \<Rightarrow> process_end" where
  "Do h order args =
     (case separateSub args of (subCmd, argv) \<Rightarrow>
        (case map_of (commands h) subCmd of
           None \<Rightarrow>
             OsExit (Print usage_header
                       # map (\<lambda>k. Print (''  '' @ k @ [CHR 0x0A])) order) 1
         | Some fn \<Rightarrow>
             (case fn argv of
                Exited n \<Rightarrow> HandlerExited n
              | Panicked \<Rightarrow> GoPanic
              | Returned ckr \<Rightarrow>
                  (case elem_at subCmd 0 of
                     None \<Rightarrow> GoPanic
                   | Some c \<Rightarrow>
                       checker_Exit
                         (ckr\<lparr>Name := ''MySQL '' @ [toUpperByte c] @ drop 1 subCmd\<rparr>)))))"

definition versionError :: "error \<Rightarrow> error" where
  "versionError err = Wrapf ''Failed to parse version: '' err"

text \<open>
  \<^verbatim>\<open>getMySQLVersion\<close>. The argument is what \<^verbatim>\<open>SELECT VERSION()\<close> gave: an
  error of the database, or the raw version string.
\<close>

definition getMySQLVersion :: "error + string \<Rightarrow> (error + mysqlVersion) outcome" where
  "getMySQLVersion query =
     (case query of
        Inl err \<Rightarrow> Returned (Inl (Wrapf ''Failed to query SELECT VERSION(): '' err))
      | Inr rawVersion \<Rightarrow>
          (let splitted = Split rawVersion CHR ''-'';
               stab = (if length splitted > 1 then splitted ! 1 else [])
           in case elem_at splitted 0 of
                None \<Rightarrow> Panicked
              | Some seg \<Rightarrow>
                  (let versionSplitted = Split seg CHR ''.'' in
                   case elem_at versionSplitted 0 of
                     None \<Rightarrow> Panicked
                   | Some s0 \<Rightarrow>
                  (case Atoi s0 of
                     Inl err \<Rightarrow> Returned (Inl (versionError err))
                   | Inr mj \<Rightarrow>
                  (case elem_at versionSplitted 1 of
                     None \<Rightarrow> Panicked
                   | Some s1 \<Rightarrow>
                  (case Atoi s1 of
                     Inl err \<Rightarrow> Returned (Inl (versionError err))
                   | Inr mn \<Rightarrow>
                  (case elem_at versionSplitted 2 of
                     None \<Rightarrow> Panicked
                   | Some s2 \<Rightarrow>
                  (case Atoi s2 of
                     Inl err \<Rightarrow> Returned (Inl (versionError err))
                   | Inr pt \<Rightarrow>
                       Returned (Inr \<lparr>major = mj, minor = mn, patch = pt,
                                       stability = stab\<rparr>)))))))))"


section \<open>check-cloudwatch-logs\<close>

record logOpts =
  Region :: string
  AccessKeyID :: string
  SecretAccessKey :: string
  LogGroupName :: string
  Pattern :: string
  WarningOver :: int
  CriticalOver :: int

text \<open>The AWS SDK's request, event and response, with the fields the plugin touches.\<close>

record FilterLogEventsInput =
  StartTime :: int
  LogGroupName :: string
  NextToken :: "string option"
  FilterPattern :: string

record FilteredLogEvent =
  Message :: "string option"

record FilterLogEventsOutput =
  Events :: "FilteredLogEvent list"
  NextToken :: "string option"

text \<open>
  \<^verbatim>\<open>cloudwatchlogsiface.CloudWatchLogsAPI\<close>, of which the plugin calls
  \<^verbatim>\<open>FilterLogEvents\<close> only: a request in a state of the outside world \<open>'w\<close> gives an
  error or a response, and a new state.
\<close>

type_synonym 'w CloudWatchLogsAPI =
  "FilterLogEventsInput \<Rightarrow> 'w \<Rightarrow> (error + FilterLogEventsOutput) \<times> 'w"

record 'w cloudwatchLogsPlugin =
  Service :: "'w CloudWatchLogsAPI"
  LogGroupName :: string
  Pattern :: string
  WarningOver :: int
  CriticalOver :: int

text \<open>
  The collaborators outside the repository: the flag parser of go-flags on the struct
  \<^verbatim>\<open>logOpts\<close>, and the SDK's \<^verbatim>\<open>session.NewSession\<close> and \<^verbatim>\<open>cloudwatchlogs.New\<close>.
\<close>

record awsConfig =
  Credentials :: "(string \<times> string \<times> string) option"
  Region :: "string option"

record ('sess, 'w) sdk =
  ParseArgs :: "string list \<Rightarrow> error + logOpts"
  NewSession :: "error + 'sess"
  New :: "'sess \<Rightarrow> awsConfig \<Rightarrow> 'w CloudWatchLogsAPI"

text \<open>The clock: \<^verbatim>\<open>time.Now()\<close> in Unix seconds, and \<^verbatim>\<open>time.Sleep\<close> of some milliseconds.\<close>

record 'w clock =
  Now :: "'w \<Rightarrow> int"
  Sleep :: "nat \<Rightarrow> 'w \<Rightarrow> 'w"

definition createService :: "('sess, 'w) sdk \<Rightarrow> logOpts \<Rightarrow> error + 'w CloudWatchLogsAPI" where
  "createService lib opts =
     (case NewSession lib of
        Inl err \<Rightarrow> Inl err
      | Inr sess \<Rightarrow>
          (let config = \<lparr>Credentials = None, Region = None\<rparr>;
               config = (if AccessKeyID opts \<noteq> [] \<and> SecretAccessKey opts \<noteq> []
                         then config\<lparr>Credentials :=
                                Some (AccessKeyID opts, SecretAccessKey opts, [])\<rparr>
                         else config);
               config = (if logOpts.Region opts \<noteq> []
                         then config\<lparr>awsConfig.Region := Some (logOpts.Region opts)\<rparr>
                         else config)
           in Inr (New lib sess config)))"

definition newCloudwatchLogsPlugin ::
  "('sess, 'w) sdk \<Rightarrow> string list \<Rightarrow> (error + 'w cloudwatchLogsPlugin) outcome" where
  "newCloudwatchLogsPlugin lib args =
     (case ParseArgs lib args of
        Inl err \<Rightarrow> Exited 1
      | Inr opts \<Rightarrow>
          (case createService lib opts of
             Inl err \<Rightarrow> Returned (Inl err)
           | Inr service \<Rightarrow>
               Returned (Inr \<lparr>Service = service,
                               LogGroupName = logOpts.LogGroupName opts,
                               Pattern = logOpts.Pattern opts,
                               WarningOver = 0,
                               CriticalOver = 0\<rparr>)))"

text \<open>
  A Go slice of strings that may be \<^verbatim>\<open>nil\<close>: \<open>None\<close> is the nil slice. \<open>elems\<close> are
  its elements, and \<^verbatim>\<open>append\<close> to a nil slice gives a slice that is not nil.
\<close>

type_synonym slice = "string list option"

fun elems :: "slice \<Rightarrow> string list" where
  "elems None = []"
| "elems (Some xs) = xs"

definition len :: "slice \<Rightarrow> int" where
  "len s = int (length (elems s))"

text \<open>
  The inner loop over \<^verbatim>\<open>output.Events\<close>. \<^verbatim>\<open>*ev.Message\<close> dereferences a pointer:
  on a nil pointer it panics, which is the result \<open>None\<close>.
\<close>

fun append_events :: "slice \<Rightarrow> FilteredLogEvent list \<Rightarrow> slice option" where
  "append_events messages [] = Some messages"
| "append_events messages (ev # evs) =
     (case Message ev of
        None \<Rightarrow> None
      | Some m \<Rightarrow> append_events (Some (elems messages @ [m])) evs)"

text \<open>
  The method \<^verbatim>\<open>run\<close> of the plugin. The loop has no bound of its own: it ends when
  the service says so, and \<open>None\<close> is the run that never ends. Beside the result the model
  returns the requests issued, each with its response, and the final state of the world.
\<close>

type_synonym call = "FilterLogEventsInput \<times> (error + FilterLogEventsOutput)"

definition filterInput ::
  "'w clock \<Rightarrow> 'w cloudwatchLogsPlugin \<Rightarrow> string option \<Rightarrow> 'w \<Rightarrow> FilterLogEventsInput" where
  "filterInput rt p nextToken w =
     (let startTime = Now rt w - 5 * 60
      in \<lparr>StartTime = startTime * 1000,
          LogGroupName = cloudwatchLogsPlugin.LogGroupName p,
          NextToken = nextToken,
          FilterPattern = cloudwatchLogsPlugin.Pattern p\<rparr>)"

partial_function (option) run_loop ::
  "'w clock \<Rightarrow> 'w cloudwatchLogsPlugin \<Rightarrow> string option \<Rightarrow> slice \<Rightarrow> call list \<Rightarrow> 'w
     \<Rightarrow> ((error + slice) outcome \<times> call list \<times> 'w) option" where
  "run_loop rt p nextToken messages calls w =
     (let input = filterInput rt p nextToken w;
          response = Service p input w;
          calls' = calls @ [(input, fst response)]
      in case fst response of
           Inl err \<Rightarrow> Some (Returned (Inl err), calls', snd response)
         | Inr output \<Rightarrow>
             (case append_events messages (Events output) of
                None \<Rightarrow> Some (Panicked, calls', snd response)
              | Some messages' \<Rightarrow>
                  if FilterLogEventsOutput.NextToken output = None
                  then Some (Returned (Inr messages'), calls', snd response)
                  else run_loop rt p (FilterLogEventsOutput.NextToken output) messages' calls'
                         (Sleep rt 250 (snd response))))"

text \<open>
  What a call shows of its response: the continuation token, and the messages of the
  events (none for an error).
\<close>

definition response_token :: "call \<Rightarrow> string option" where
  "response_token c =
     (case snd c of Inl err \<Rightarrow> None | Inr output \<Rightarrow> FilterLogEventsOutput.NextToken output)"

definition response_messages :: "call \<Rightarrow> string list" where
  "response_messages c =
     (case snd c of
        Inl err \<Rightarrow> []
      | Inr output \<Rightarrow>
          concat (map (\<lambda>ev. case Message ev of None \<Rightarrow> [] | Some m \<Rightarrow> [m]) (Events output)))"

text \<open>
  A complete pagination: every request carries the token of the response before it (the
  first one carries \<open>tok\<close>), every response is a success, and the last response, and
  only the last, has no continuation token.
\<close>

fun pages :: "string option \<Rightarrow> call list \<Rightarrow> bool" where
  "pages tok [] = False"
| "pages tok (c # cs) =
     (FilterLogEventsInput.NextToken (fst c) = tok \<and> \<not> isl (snd c)
      \<and> (if response_token c = None then cs = [] else pages (response_token c) cs))"

definition cloudwatchLogsPlugin_run ::
  "'w clock \<Rightarrow> 'w cloudwatchLogsPlugin \<Rightarrow> 'w
     \<Rightarrow> ((error + slice) outcome \<times> call list \<times> 'w) option" where
  "cloudwatchLogsPlugin_run rt p w = run_loop rt p None None [] w"

text \<open>The evaluation step of the function \<^verbatim>\<open>run\<close>, from the status to the checker.\<close>

definition evaluate :: "'w cloudwatchLogsPlugin \<Rightarrow> slice \<Rightarrow> checker" where
  "evaluate p messages =
     (let status = (if len messages > cloudwatchLogsPlugin.CriticalOver p then CRITICAL
                    else if len messages > cloudwatchLogsPlugin.WarningOver p then WARNING
                    else OK)
      in if messages \<noteq> None then NewChecker status (Msg (concat (elems messages)))
         else NewChecker OK (Msg ''ok''))"

text \<open>
  The function \<^verbatim>\<open>run\<close> of the package. The result is \<open>None\<close> when the query loop
  never ends; otherwise the way the function ends, with the requests that were issued.
\<close>

definition checkcloudwatchlogs_run ::
  "('sess, 'w) sdk \<Rightarrow> 'w clock \<Rightarrow> string list \<Rightarrow> 'w \<Rightarrow> (checker outcome \<times> call list) option" where
  "checkcloudwatchlogs_run lib rt args w =
     (case newCloudwatchLogsPlugin lib args of
        Exited n \<Rightarrow> Some (Exited n, [])
      | Panicked \<Rightarrow> Some (Panicked, [])
      | Returned (Inl err) \<Rightarrow> Some (Returned (NewChecker UNKNOWN (ErrMsg err)), [])
      | Returned (Inr p) \<Rightarrow>
          (case cloudwatchLogsPlugin_run rt p w of
             None \<Rightarrow> None
           | Some (Exited n, calls, w') \<Rightarrow> Some (Exited n, calls)
           | Some (Panicked, calls, w') \<Rightarrow> Some (Panicked, calls)
           | Some (Returned (Inl err), calls, w') \<Rightarrow>
               Some (Returned (NewChecker UNKNOWN (ErrMsg err)), calls)
           | Some (Returned (Inr messages), calls, w') \<Rightarrow>
               Some (Returned (evaluate p messages), calls)))"

section \<open>check-ntpoffset\<close>

subsection \<open>Library functions on strings and streams\<close>

text \<open>
  The comparisons \<^verbatim>\<open><\<close> and \<^verbatim>\<open><=\<close> of \<^verbatim>\<open>float64\<close> (false whenever an operand is
  NaN), \<^verbatim>\<open>math.Abs\<close>, and the product. The product of two finite values is rounded to a
  \<^verbatim>\<open>float64\<close>; the rounding function is a parameter.
\<close>

fun flt :: "float64 \<Rightarrow> float64 \<Rightarrow> bool" where
  "flt NaN y = False"
| "flt x NaN = False"
| "flt PosInf y = False"
| "flt x NegInf = False"
| "flt NegInf y = True"
| "flt x PosInf = True"
| "flt (Finite a) (Finite b) = (a < b)"

fun fle :: "float64 \<Rightarrow> float64 \<Rightarrow> bool" where
  "fle NaN y = False"
| "fle x NaN = False"
| "fle NegInf y = True"
| "fle x PosInf = True"
| "fle PosInf y = False"
| "fle x NegInf = False"
| "fle (Finite a) (Finite b) = (a \<le> b)"

fun math_Abs :: "float64 \<Rightarrow> float64" where
  "math_Abs NaN = NaN"
| "math_Abs NegInf = PosInf"
| "math_Abs PosInf = PosInf"
| "math_Abs (Finite a) = Finite \<bar>a\<bar>"

fun fneg :: "float64 \<Rightarrow> float64" where
  "fneg NaN = NaN"
| "fneg NegInf = PosInf"
| "fneg PosInf = NegInf"
| "fneg (Finite a) = Finite (- a)"

fun fmul :: "(real \<Rightarrow> float64) \<Rightarrow> float64 \<Rightarrow> float64 \<Rightarrow> float64" where
  "fmul rnd NaN y = NaN"
| "fmul rnd x NaN = NaN"
| "fmul rnd (Finite a) (Finite b) = rnd (a * b)"
| "fmul rnd (Finite a) y = (if a = 0 then NaN else if 0 < a then y else fneg y)"
| "fmul rnd x (Finite b) = (if b = 0 then NaN else if 0 < b then x else fneg x)"
| "fmul rnd x y = (if x = y then PosInf else NegInf)"

text \<open>\<^verbatim>\<open>strings.Index\<close>: the position of the first occurrence, or -1.\<close>

fun Index_from :: "nat \<Rightarrow> string \<Rightarrow> string \<Rightarrow> int" where
  "Index_from i [] substr = (if substr = [] then int i else - 1)"
| "Index_from i (c # cs) substr =
     (if prefix substr (c # cs) then int i else Index_from (Suc i) cs substr)"

definition Index :: "string \<Rightarrow> string \<Rightarrow> int" where
  "Index s substr = Index_from 0 s substr"

text \<open>\<^verbatim>\<open>strings.Trim\<close> with a cutset of ASCII bytes.\<close>

definition Trim :: "string \<Rightarrow> string \<Rightarrow> string" where
  "Trim s cutset =
     rev (dropWhile (\<lambda>c. c \<in> set cutset) (rev (dropWhile (\<lambda>c. c \<in> set cutset) s)))"

text \<open>
  \<^verbatim>\<open>strings.Fields\<close> splits around runs of the white space of \<^verbatim>\<open>unicode.IsSpace\<close>.
  On the bytes of a string: the six ASCII spaces, and the UTF-8 encodings of U+0085,
  U+00A0, U+1680, U+2000 to U+200A, U+2028, U+2029, U+202F, U+205F and U+3000.
  \<open>space_width\<close> is the number of bytes of the space at the head of a string, 0 when the
  string does not start with one.
\<close>

definition space_width :: "string \<Rightarrow> nat" where
  "space_width s =
     (case s of
        [] \<Rightarrow> 0
      | c # r \<Rightarrow>
          if c \<in> {CHR 0x09, CHR 0x0A, CHR 0x0B, CHR 0x0C, CHR 0x0D, CHR 0x20} then 1
          else if c = CHR 0xC2 then
            (case r of d # _ \<Rightarrow> if d = CHR 0x85 \<or> d = CHR 0xA0 then 2 else 0 | [] \<Rightarrow> 0)
          else if c = CHR 0xE1 then
            (if take 2 r = [CHR 0x9A, CHR 0x80] then 3 else 0)
          else if c = CHR 0xE2 then
            (case r of
               d # e # _ \<Rightarrow>
                 if d = CHR 0x80 \<and> ((128 \<le> (of_char e :: nat) \<and> (of_char e :: nat) \<le> 138)
                     \<or> e = CHR 0xA8 \<or> e = CHR 0xA9 \<or> e = CHR 0xAF) then 3
                 else if d = CHR 0x81 \<and> e = CHR 0x9F then 3
                 else 0
             | _ \<Rightarrow> 0)
          else if c = CHR 0xE3 then
            (if take 2 r = [CHR 0x80, CHR 0x80] then 3 else 0)
          else 0)"

fun fields_aux :: "nat \<Rightarrow> string \<Rightarrow> string \<Rightarrow> string list" where
  "fields_aux k cur [] = (if cur = [] then [] else [rev cur])"
| "fields_aux (Suc k) cur (c # cs) = fields_aux k cur cs"
| "fields_aux 0 cur (c # cs) =
     (if space_width (c # cs) = 0 then fields_aux 0 (c # cur) cs
      else (if cur = [] then [] else [rev cur]) @ fields_aux (space_width (c # cs) - 1) [] cs)"

definition Fields :: "string \<Rightarrow> string list" where
  "Fields s = fields_aux 0 [] s"

text \<open>\<^verbatim>\<open>filepath.Base\<close> on Unix.\<close>

definition Base :: "string \<Rightarrow> string" where
  "Base path =
     (if path = [] then ''.''
      else (let stripped = rev (dropWhile (\<lambda>c. c = CHR ''/'') (rev path));
                elem = rev (takeWhile (\<lambda>c. c \<noteq> CHR ''/'') (rev stripped))
            in if elem = [] then ''/'' else elem))"

text \<open>
  The standard output of a subprocess, as the \<^verbatim>\<open>io.Reader\<close> the plugin reads: the
  bytes it delivers, and the error that ends it when it is not the end of the file.
\<close>

record reader =
  content :: string
  read_err :: "error option"

definition ReadAll :: "reader \<Rightarrow> error + string" where
  "ReadAll r = (case read_err r of Some err \<Rightarrow> Inl err | None \<Rightarrow> Inr (content r))"

text \<open>
  \<^verbatim>\<open>bufio.Scanner\<close> with the default split function \<^verbatim>\<open>bufio.ScanLines\<close> and the
  default buffer limit. \<open>ScanLines\<close> gives how far to advance and the token, if there is
  one in the data.
\<close>

definition MaxScanTokenSize :: nat where
  "MaxScanTokenSize = 64 * 1024"

definition dropCR :: "string \<Rightarrow> string" where
  "dropCR data = (if data \<noteq> [] \<and> last data = CHR 0x0D then butlast data else data)"

definition ScanLines :: "string \<Rightarrow> bool \<Rightarrow> nat \<times> string option" where
  "ScanLines data atEOF =
     (if atEOF \<and> data = [] then (0, None)
      else (let i = length (takeWhile (\<lambda>c. c \<noteq> CHR 0x0A) data)
            in if i < length data then (i + 1, Some (dropCR (take i data)))
               else if atEOF then (length data, Some (dropCR data))
               else (0, None)))"

text \<open>
  The state of a scanner: the input it has not consumed, and whether it has met the end
  of the input or an error (\<^verbatim>\<open>s.err != nil\<close>). \<open>Scan\<close> gives the token, when the call
  returns true, and the next state. A call first looks for a token in what the buffer can
  hold; with no token in a full buffer it fails with \<^verbatim>\<open>ErrTooLong\<close> and keeps the
  buffer; with no token in less than a full buffer the input is at its end (a read error
  ends it the same way) and what is left is the last token. A call on a scanner that has
  met the end or an error hands what the buffer holds to the split function as final data.
\<close>

record scanner =
  buf :: string
  failed :: bool

definition NewScanner :: "reader \<Rightarrow> scanner" where
  "NewScanner r = \<lparr>buf = content r, failed = False\<rparr>"

definition Scan :: "scanner \<Rightarrow> string option \<times> scanner" where
  "Scan s =
     (if failed s then
        (case ScanLines (buf s) True of
           (advance, Some token) \<Rightarrow> (Some token, s\<lparr>buf := drop advance (buf s)\<rparr>)
         | (advance, None) \<Rightarrow> (None, s\<lparr>buf := []\<rparr>))
      else
        (let window = take MaxScanTokenSize (buf s) in
         case ScanLines window False of
           (advance, Some token) \<Rightarrow> (Some token, s\<lparr>buf := drop advance (buf s)\<rparr>)
         | (advance, None) \<Rightarrow>
             if length window = MaxScanTokenSize then (None, \<lparr>buf = window, failed = True\<rparr>)
             else (case ScanLines window True of
                     (advance, Some token) \<Rightarrow>
                       (Some token, \<lparr>buf = drop advance window, failed = True\<rparr>)
                   | (advance, None) \<Rightarrow> (None, \<lparr>buf = [], failed = True\<rparr>))))"

text \<open>The lines that a loop \<^verbatim>\<open>for scr.Scan() { ... scr.Text() ... }\<close> sees, in order.\<close>

function scanned :: "scanner \<Rightarrow> string list" where
  "scanned s = (case Scan s of (None, s') \<Rightarrow> [] | (Some token, s') \<Rightarrow> token # scanned s')"
  by pat_completeness auto
termination
proof (relation "measure (\<lambda>s. length (buf s))")
  show "wf (measure (\<lambda>s. length (buf s)))"
    by simp
next
  fix s s' :: scanner and tok :: "string option" and token :: string
  assume "(tok, s') = Scan s" and "tok = Some token"
  then have s: "Scan s = (Some token, s')"
    by simp
  have "length (buf s') < length (buf s)"
  proof (cases "failed s")
    case True
    with s show ?thesis
      by (auto simp: Scan_def ScanLines_def Let_def split: if_splits)
  next
    case False
    let ?w = "take MaxScanTokenSize (buf s)"
    have w: "length ?w \<le> length (buf s)"
      by simp
    from False s show ?thesis
      using w
      by (auto simp: Scan_def ScanLines_def Let_def split: if_splits prod.splits option.splits)
  qed
  then show "(s', s) \<in> measure (\<lambda>s. length (buf s))"
    by simp
qed

declare scanned.simps [simp del]

text \<open>
  The lines of a text, in the plain sense: the pieces between the newlines, without the
  empty piece that follows a last newline, each without a carriage return at its end.
\<close>

definition text_lines :: "string \<Rightarrow> string list" where
  "text_lines data =
     (let pieces = Split data CHR 0x0A
      in map dropCR (if last pieces = [] then butlast pieces else pieces))"

subsection \<open>The plugin\<close>

record ntpOpts =
  Crit :: float64
  Warn :: float64

text \<open>The defaults of the struct tags: critical 100, warning 50.\<close>

definition default_opts :: ntpOpts where
  "default_opts = \<lparr>Crit = Finite 100, Warn = Finite 50\<rparr>"

text \<open>
  A subprocess, as \<^verbatim>\<open>withCmd\<close> sees it: the error of \<^verbatim>\<open>StdoutPipe\<close>, the error of
  \<^verbatim>\<open>Start\<close>, its standard output, and the error of \<^verbatim>\<open>Wait\<close>.
\<close>

record command =
  pipe_err :: "error option"
  start_err :: "error option"
  stdout :: reader
  wait_err :: "error option"

text \<open>
  The host the plugin runs on, and the library functions it takes from outside the
  repository: the flag parser on the struct \<^verbatim>\<open>opts\<close>, the user id, the four commands
  the plugin may start, \<^verbatim>\<open>exec.LookPath\<close>, and for floats \<^verbatim>\<open>strconv.ParseFloat\<close> and
  the rounding of a product.
\<close>

record host =
  flags_ParseArgs :: "string list \<Rightarrow> error + ntpOpts"
  Getuid :: nat
  lsof :: command
  ps :: command
  ntpq :: command
  chronyc :: command
  LookPath :: "string \<Rightarrow> error + string"
  ParseFloat :: "string \<Rightarrow> error + float64"
  round64 :: "real \<Rightarrow> float64"

text \<open>
  \<^verbatim>\<open>withCmd\<close>. The callback assigns to variables of the function around it: \<open>'s\<close> is
  the state of these variables, passed through.
\<close>

definition withCmd ::
  "command \<Rightarrow> (reader \<Rightarrow> 's \<Rightarrow> (error option \<times> 's) outcome) \<Rightarrow> 's \<Rightarrow> (error option \<times> 's) outcome" where
  "withCmd cmd fn vars =
     (case pipe_err cmd of
        Some err \<Rightarrow> Returned (Some err, vars)
      | None \<Rightarrow>
          (case start_err cmd of
             Some err \<Rightarrow> Returned (Some err, vars)
           | None \<Rightarrow>
               (case fn (stdout cmd) vars of
                  Returned (Some err, vars') \<Rightarrow> Returned (Some err, vars')
                | Returned (None, vars') \<Rightarrow> Returned (wait_err cmd, vars')
                | Exited n \<Rightarrow> Exited n
                | Panicked \<Rightarrow> Panicked)))"

definition noNtpErr :: error where
  "noNtpErr = Errorf ''it seems no ntp daemon is running''"

text \<open>The callback of the privileged detection: the second call of \<^verbatim>\<open>Scan\<close> decides.\<close>

definition detect_lsof :: "reader \<Rightarrow> string \<Rightarrow> (error option \<times> string) outcome" where
  "detect_lsof out ntpdName =
     (let scr = NewScanner out;
          scr = snd (Scan scr)
      in case fst (Scan scr) of
           Some line \<Rightarrow>
             if line = [] then Returned (Some noNtpErr, ntpdName)
             else (case elem_at (Fields line) 0 of
                     None \<Rightarrow> Panicked
                   | Some field \<Rightarrow> Returned (None, Base field))
         | None \<Rightarrow> Returned (Some noNtpErr, ntpdName))"

text \<open>The loop of the unprivileged detection over the lines of \<^verbatim>\<open>ps\<close>.\<close>

fun detect_ps_loop :: "host \<Rightarrow> string list \<Rightarrow> string \<Rightarrow> string" where
  "detect_ps_loop h [] ntpdName = ntpdName"
| "detect_ps_loop h (line # rest) ntpdName =
     (if suffix ''chronyd'' line then
        (case LookPath h ''chronyc'' of
           Inl pathErr \<Rightarrow> ntpdName
         | Inr path \<Rightarrow> ''chronyd'')
      else detect_ps_loop h rest ntpdName)"

definition detect_ps :: "host \<Rightarrow> reader \<Rightarrow> string \<Rightarrow> (error option \<times> string) outcome" where
  "detect_ps h out ntpdName =
     Returned (None, detect_ps_loop h (scanned (NewScanner out)) ''ntpd'')"

definition detectNTPDname :: "host \<Rightarrow> (string \<times> error option) outcome" where
  "detectNTPDname h =
     (case (if Getuid h = 0 then withCmd (lsof h) detect_lsof []
            else withCmd (ps h) (detect_ps h) []) of
        Returned (err, ntpdName) \<Rightarrow> Returned (ntpdName, err)
      | Exited n \<Rightarrow> Exited n
      | Panicked \<Rightarrow> Panicked)"

definition ntpdDown :: error where
  "ntpdDown = Errorf ''couldn't get ntp offset. ntpd process may be down''"

definition parseNTPOffsetFromNTPD :: "host \<Rightarrow> reader \<Rightarrow> error + float64" where
  "parseNTPOffsetFromNTPD h out =
     (case ReadAll out of
        Inl err \<Rightarrow> Inl err
      | Inr output \<Rightarrow>
          (let lines = Split output CHR 0x0A in
           case (if length lines = 2 then Some (lines ! 0)
                 else if length lines = 3 then
                   (if Index (lines ! 0) ''assID=0'' = 0 then Some (lines ! 1) else None)
                 else None) of
             None \<Rightarrow> Inl ntpdDown
           | Some line \<Rightarrow>
               (let kv = Split line CHR ''='' in
                if length kv \<noteq> 2 then Inl ntpdDown
                else ParseFloat h (Trim (kv ! 1) [CHR 0x0A]))))"

definition chronyFailed :: error where
  "chronyFailed = Errorf ''failed to get ntp offset''"

text \<open>The loop of the chrony parser over the lines of the scanner.\<close>

fun chrony_loop :: "host \<Rightarrow> string list \<Rightarrow> error + float64" where
  "chrony_loop h [] = Inl chronyFailed"
| "chrony_loop h (line # rest) =
     (if prefix ''Last offset'' line then
        (let flds = Fields line in
         if length flds \<noteq> 5 then Inl chronyFailed
         else (case ParseFloat h (flds ! 3) of
                 Inl err \<Rightarrow> Inl err
               | Inr offset \<Rightarrow> Inr (fmul (round64 h) offset (Finite 1000))))
      else chrony_loop h rest)"

definition parseNTPOffsetFromChrony :: "host \<Rightarrow> reader \<Rightarrow> error + float64" where
  "parseNTPOffsetFromChrony h out = chrony_loop h (scanned (NewScanner out))"

text \<open>
  The two functions that run the diagnostic command. The callback assigns the offset; the
  error the function returns is the one of \<^verbatim>\<open>withCmd\<close>.
\<close>

definition offset_from :: "command \<Rightarrow> (reader \<Rightarrow> error + float64) \<Rightarrow> (error + float64) outcome" where
  "offset_from cmd parse =
     (case withCmd cmd
             (\<lambda>out offset. case parse out of
                              Inl err \<Rightarrow> Returned (Some err, Finite 0)
                            | Inr v \<Rightarrow> Returned (None, v))
             (Finite 0) of
        Returned (Some err, offset) \<Rightarrow> Returned (Inl err)
      | Returned (None, offset) \<Rightarrow> Returned (Inr offset)
      | Exited n \<Rightarrow> Exited n
      | Panicked \<Rightarrow> Panicked)"

definition getNTPOffsetFromNTPD :: "host \<Rightarrow> (error + float64) outcome" where
  "getNTPOffsetFromNTPD h = offset_from (ntpq h) (parseNTPOffsetFromNTPD h)"

definition getNTPOffsetFromChrony :: "host \<Rightarrow> (error + float64) outcome" where
  "getNTPOffsetFromChrony h = offset_from (chronyc h) (parseNTPOffsetFromChrony h)"

definition getNtpOffset :: "host \<Rightarrow> (error + float64) outcome" where
  "getNtpOffset h =
     (case detectNTPDname h of
        Exited n \<Rightarrow> Exited n
      | Panicked \<Rightarrow> Panicked
      | Returned (ntpdName, Some err) \<Rightarrow> Returned (Inl err)
      | Returned (ntpdName, None) \<Rightarrow>
          if ntpdName = ''ntpd'' then getNTPOffsetFromNTPD h
          else if ntpdName = ''chronyd'' then getNTPOffsetFromChrony h
          else Returned (Inl (Errorq ''unsupported ntp daemon '' ntpdName)))"

text \<open>The threshold comparison of \<^verbatim>\<open>run\<close>, from the offset to the checker.\<close>

definition classify :: "ntpOpts \<Rightarrow> float64 \<Rightarrow> checker" where
  "classify opts offset =
     (if flt (Crit opts) (math_Abs offset)
      then NewChecker CRITICAL (OverMsg (math_Abs offset) (Crit opts))
      else if flt (Warn opts) (math_Abs offset)
      then NewChecker WARNING (OverMsg (math_Abs offset) (Warn opts))
      else NewChecker OK (WithinMsg (math_Abs offset) (Warn opts) (Crit opts)))"

definition checkntpoffset_run :: "host \<Rightarrow> string list \<Rightarrow> checker outcome" where
  "checkntpoffset_run h args =
     (case flags_ParseArgs h args of
        Inl err \<Rightarrow> Exited 1
      | Inr opts \<Rightarrow>
          (case getNtpOffset h of
             Exited n \<Rightarrow> Exited n
           | Panicked \<Rightarrow> Panicked
           | Returned (Inl err) \<Rightarrow> Returned (Unknown (ErrMsg err))
           | Returned (Inr offset) \<Rightarrow> Returned (classify opts offset)))"

section \<open>Properties of check-mysql\<close>

lemmas atoi_eval = Atoi_def isDigit_def digitVal_def Let_def

lemmas version_eval = getMySQLVersion_def elem_at_def atoi_eval

lemma Split_nonempty: "Split s sep \<noteq> []"
  by (induction s) (auto split: list.splits)

text \<open>
  The two reads at index 0 are always in range, so the parser is a cascade of the
  three conversions, with a panic where index 1 or index 2 does not exist.
\<close>

lemma getMySQLVersion_Inr:
  "getMySQLVersion (Inr raw) =
     (let splitted = Split raw CHR ''-'';
          vs = Split (splitted ! 0) CHR ''.''
      in case Atoi (vs ! 0) of
           Inl err \<Rightarrow> Returned (Inl (versionError err))
         | Inr mj \<Rightarrow>
             if length vs < 2 then Panicked
             else case Atoi (vs ! 1) of
                    Inl err \<Rightarrow> Returned (Inl (versionError err))
                  | Inr mn \<Rightarrow>
                      if length vs < 3 then Panicked
                      else case Atoi (vs ! 2) of
                             Inl err \<Rightarrow> Returned (Inl (versionError err))
                           | Inr pt \<Rightarrow>
                               Returned (Inr \<lparr>major = mj, minor = mn, patch = pt,
                                 stability = (if 1 < length splitted then splitted ! 1 else [])\<rparr>))"
  using Split_nonempty [of raw "CHR ''-''"]
    Split_nonempty [of "Split raw CHR ''-'' ! 0" "CHR ''.''"]
  by (auto simp: getMySQLVersion_def elem_at_def Let_def split: sum.splits)

lemma getMySQLVersion_success:
  assumes "getMySQLVersion (Inr raw) = Returned (Inr v)"
  shows "let splitted = Split raw CHR ''-''; vs = Split (splitted ! 0) CHR ''.''
         in 3 \<le> length vs \<and> Atoi (vs ! 0) = Inr (major v) \<and> Atoi (vs ! 1) = Inr (minor v)
            \<and> Atoi (vs ! 2) = Inr (patch v)
            \<and> stability v = (if 1 < length splitted then splitted ! 1 else [])"
  using assms unfolding getMySQLVersion_Inr
  by (auto simp: Let_def split: sum.splits if_splits)

lemma getMySQLVersion_non_numeric:
  assumes "i < 3" and "i < length (Split (Split raw CHR ''-'' ! 0) CHR ''.'')"
    and "isl (Atoi (Split (Split raw CHR ''-'' ! 0) CHR ''.'' ! i))"
  shows "\<exists>e. getMySQLVersion (Inr raw) = Returned (Inl (versionError e))"
proof -
  from assms(1) consider "i = 0" | "i = 1" | "i = 2" by linarith
  then show ?thesis
    using assms(2,3) unfolding getMySQLVersion_Inr
    by cases (auto simp: Let_def isl_def split: sum.splits)
qed

lemma getMySQLVersion_panic_iff:
  "getMySQLVersion (Inr raw) = Panicked \<longleftrightarrow>
     (let vs = Split (Split raw CHR ''-'' ! 0) CHR ''.''
      in length vs < 3 \<and> (\<forall>i < length vs. \<not> isl (Atoi (vs ! i))))"
  using Split_nonempty [of "Split raw CHR ''-'' ! 0" "CHR ''.''"]
  unfolding getMySQLVersion_Inr
  by (auto simp: Let_def isl_def less_Suc_eq numeral_2_eq_2 numeral_3_eq_3 split: sum.splits)

text \<open>
  C8. The version parser splits the raw string on \<open>-\<close>, takes the second segment (when
  there is one) as the stability, and splits the first segment on \<open>.\<close> into major,
  minor and patch, each converted by \<^verbatim>\<open>strconv.Atoi\<close>. \<open>8.0.1-dmr\<close> gives 8, 0, 1 and
  \<open>dmr\<close>; \<open>5.7.2\<close> gives the empty stability; \<open>abc.0.1\<close> is a parse error returned to
  the caller. In general a returned version holds exactly the three converted components,
  and a major, minor or patch component that \<^verbatim>\<open>Atoi\<close> rejects always makes the function
  return a parse error: no default version stands in for it.
\<close>

theorem getMySQLVersion_parses:
  "getMySQLVersion (Inr ''8.0.1-dmr'')
     = Returned (Inr \<lparr>major = 8, minor = 0, patch = 1, stability = ''dmr''\<rparr>)
   \<and> getMySQLVersion (Inr ''5.7.2'')
     = Returned (Inr \<lparr>major = 5, minor = 7, patch = 2, stability = []\<rparr>)
   \<and> getMySQLVersion (Inr ''abc.0.1'')
     = Returned (Inl (versionError (NumError ''Atoi'' ''abc'' ErrSyntax)))
   \<and> (\<forall>raw v. getMySQLVersion (Inr raw) = Returned (Inr v) \<longrightarrow>
         (let splitted = Split raw CHR ''-''; vs = Split (splitted ! 0) CHR ''.''
          in 3 \<le> length vs \<and> Atoi (vs ! 0) = Inr (major v) \<and> Atoi (vs ! 1) = Inr (minor v)
             \<and> Atoi (vs ! 2) = Inr (patch v)
             \<and> stability v = (if 1 < length splitted then splitted ! 1 else [])))
   \<and> (\<forall>raw i. i < 3 \<and> i < length (Split (Split raw CHR ''-'' ! 0) CHR ''.'')
           \<and> isl (Atoi (Split (Split raw CHR ''-'' ! 0) CHR ''.'' ! i)) \<longrightarrow>
         (\<exists>e. getMySQLVersion (Inr raw) = Returned (Inl (versionError e))))"
proof (intro conjI allI impI)
  show "getMySQLVersion (Inr ''8.0.1-dmr'')
     = Returned (Inr \<lparr>major = 8, minor = 0, patch = 1, stability = ''dmr''\<rparr>)"
    by (simp add: version_eval)
  show "getMySQLVersion (Inr ''5.7.2'')
     = Returned (Inr \<lparr>major = 5, minor = 7, patch = 2, stability = []\<rparr>)"
    by (simp add: version_eval)
  show "getMySQLVersion (Inr ''abc.0.1'')
     = Returned (Inl (versionError (NumError ''Atoi'' ''abc'' ErrSyntax)))"
    by (simp add: version_eval)
next
  fix raw v
  assume "getMySQLVersion (Inr raw) = Returned (Inr v)"
  then show "let splitted = Split raw CHR ''-''; vs = Split (splitted ! 0) CHR ''.''
     in 3 \<le> length vs \<and> Atoi (vs ! 0) = Inr (major v) \<and> Atoi (vs ! 1) = Inr (minor v)
        \<and> Atoi (vs ! 2) = Inr (patch v)
        \<and> stability v = (if 1 < length splitted then splitted ! 1 else [])"
    by (rule getMySQLVersion_success)
next
  fix raw i
  assume "i < 3 \<and> i < length (Split (Split raw CHR ''-'' ! 0) CHR ''.'')
           \<and> isl (Atoi (Split (Split raw CHR ''-'' ! 0) CHR ''.'' ! i))"
  then show "\<exists>e. getMySQLVersion (Inr raw) = Returned (Inl (versionError e))"
    using getMySQLVersion_non_numeric [of i raw] by blast
qed

text \<open>
  The theorem at concrete inputs: the version of \<open>10.3.1-MariaDB-log\<close> has the stability
  \<open>MariaDB\<close>, and the non-numeric minor of \<open>5.x.1\<close> is a parse error.
\<close>

theorem getMySQLVersion_parses_witness:
  "getMySQLVersion (Inr ''10.3.1-MariaDB-log'')
     = Returned (Inr \<lparr>major = 10, minor = 3, patch = 1, stability = ''MariaDB''\<rparr>)
   \<and> Atoi ''3'' = Inr 3
   \<and> isl (Atoi ''x'')
   \<and> (\<exists>e. getMySQLVersion (Inr ''5.x.1'') = Returned (Inl (versionError e)))"
proof -
  have run: "getMySQLVersion (Inr ''10.3.1-MariaDB-log'')
     = Returned (Inr \<lparr>major = 10, minor = 3, patch = 1, stability = ''MariaDB''\<rparr>)"
    by (simp add: version_eval)
  have bad: "(1::nat) < 3 \<and> 1 < length (Split (Split ''5.x.1'' CHR ''-'' ! 0) CHR ''.'')
      \<and> isl (Atoi (Split (Split ''5.x.1'' CHR ''-'' ! 0) CHR ''.'' ! 1))"
    by (simp add: atoi_eval)
  have x: "isl (Atoi ''x'')"
    by (simp add: atoi_eval)
  note succ = getMySQLVersion_parses
    [THEN conjunct2, THEN conjunct2, THEN conjunct2, THEN conjunct1, rule_format]
  note fails = getMySQLVersion_parses
    [THEN conjunct2, THEN conjunct2, THEN conjunct2, THEN conjunct2, rule_format]
  from succ [OF run] have three: "Atoi ''3'' = Inr 3"
    by simp
  from fails [OF bad]
  have "\<exists>e. getMySQLVersion (Inr ''5.x.1'') = Returned (Inl (versionError e))" .
  with run three x show ?thesis
    by blast
qed

text \<open>
  C10, as stated, says that every version string whose first segment has fewer than three
  components makes the parser panic. The first component is converted before index 1 is
  read: \<open>abc\<close> has one component and is a parse error, not a panic.
\<close>

theorem getMySQLVersion_short_counterexample:
  "length (Split (Split ''abc'' CHR ''-'' ! 0) CHR ''.'') < 3
   \<and> getMySQLVersion (Inr ''abc'')
       = Returned (Inl (versionError (NumError ''Atoi'' ''abc'' ErrSyntax)))
   \<and> getMySQLVersion (Inr ''abc'') \<noteq> Panicked"
  by (simp add: version_eval)

text \<open>
  C10, amended. The parser reads index 1 and index 2 of the components with no length
  check. It panics exactly on the version strings whose first segment has fewer than three
  components, all of them accepted by \<^verbatim>\<open>Atoi\<close> (such as \<open>5.7\<close> and \<open>8\<close>); when one of
  the one or two components present is rejected by \<^verbatim>\<open>Atoi\<close>, the parser returns the
  parse error instead.
\<close>

theorem getMySQLVersion_panics:
  "getMySQLVersion (Inr ''5.7'') = Panicked
   \<and> getMySQLVersion (Inr ''8'') = Panicked
   \<and> (\<forall>raw. getMySQLVersion (Inr raw) = Panicked \<longleftrightarrow>
         (let vs = Split (Split raw CHR ''-'' ! 0) CHR ''.''
          in length vs < 3 \<and> (\<forall>i < length vs. \<not> isl (Atoi (vs ! i)))))
   \<and> (\<forall>raw. (let vs = Split (Split raw CHR ''-'' ! 0) CHR ''.''
          in length vs < 3 \<and> (\<exists>i < length vs. isl (Atoi (vs ! i)))) \<longrightarrow>
         (\<exists>e. getMySQLVersion (Inr raw) = Returned (Inl (versionError e))))"
proof (intro conjI allI impI)
  show "getMySQLVersion (Inr ''5.7'') = Panicked"
    by (simp add: version_eval)
  show "getMySQLVersion (Inr ''8'') = Panicked"
    by (simp add: version_eval)
next
  fix raw
  show "getMySQLVersion (Inr raw) = Panicked \<longleftrightarrow>
         (let vs = Split (Split raw CHR ''-'' ! 0) CHR ''.''
          in length vs < 3 \<and> (\<forall>i < length vs. \<not> isl (Atoi (vs ! i))))"
    by (rule getMySQLVersion_panic_iff)
next
  fix raw
  assume "let vs = Split (Split raw CHR ''-'' ! 0) CHR ''.''
          in length vs < 3 \<and> (\<exists>i < length vs. isl (Atoi (vs ! i)))"
  then obtain i where "i < 3" "i < length (Split (Split raw CHR ''-'' ! 0) CHR ''.'')"
    "isl (Atoi (Split (Split raw CHR ''-'' ! 0) CHR ''.'' ! i))"
    by (auto simp: Let_def)
  then show "\<exists>e. getMySQLVersion (Inr raw) = Returned (Inl (versionError e))"
    by (rule getMySQLVersion_non_numeric)
qed

theorem getMySQLVersion_panics_witness:
  "getMySQLVersion (Inr ''10.3-MariaDB'') = Panicked
   \<and> (\<exists>e. getMySQLVersion (Inr ''5.x'') = Returned (Inl (versionError e)))"
proof -
  have vs: "Split (Split ''10.3-MariaDB'' CHR ''-'' ! 0) CHR ''.'' = [''10'', ''3'']"
    by simp
  have nums: "\<not> isl (Atoi ''10'')" "\<not> isl (Atoi ''3'')"
    by (simp_all add: atoi_eval)
  have short: "let vs = Split (Split ''10.3-MariaDB'' CHR ''-'' ! 0) CHR ''.''
      in length vs < 3 \<and> (\<forall>i < length vs. \<not> isl (Atoi (vs ! i)))"
    unfolding Let_def vs using nums by (simp add: All_less_Suc)
  have bad: "let vs = Split (Split ''5.x'' CHR ''-'' ! 0) CHR ''.''
      in length vs < 3 \<and> (\<exists>i < length vs. isl (Atoi (vs ! i)))"
  proof -
    have "(1::nat) < length (Split (Split ''5.x'' CHR ''-'' ! 0) CHR ''.'')
        \<and> isl (Atoi (Split (Split ''5.x'' CHR ''-'' ! 0) CHR ''.'' ! 1))"
      by (simp add: atoi_eval)
    moreover have "length (Split (Split ''5.x'' CHR ''-'' ! 0) CHR ''.'') < 3"
      by simp
    ultimately show ?thesis
      unfolding Let_def by blast
  qed
  from getMySQLVersion_panics short
  have "getMySQLVersion (Inr ''10.3-MariaDB'') = Panicked"
    by blast
  moreover from getMySQLVersion_panics bad
  have "\<exists>e. getMySQLVersion (Inr ''5.x'') = Returned (Inl (versionError e))"
    by blast
  ultimately show ?thesis
    by blast
qed


lemma commands_keys:
  "map fst (commands h) = [''replication'', ''connection'', ''uptime'', ''readonly'']"
  by (simp add: commands_def)

lemma commands_lookup_none:
  "k \<notin> set (map fst (commands h)) \<Longrightarrow> map_of (commands h) k = None"
  by (simp add: map_of_eq_None_iff)

lemma commands_lookup_some:
  "k \<in> set (map fst (commands h)) \<Longrightarrow> \<exists>fn. map_of (commands h) k = Some fn"
  by (metis map_of_eq_None_iff not_Some_eq set_map)

lemma empty_not_command: "[] \<notin> set (map fst (commands h))"
  by (simp add: commands_def)

text \<open>
  The dispatch takes the usage path exactly when the first argument is absent, starts
  with \<open>-\<close>, or is not a key of the table.
\<close>

lemma Do_usage_iff:
  "Do h order args
     = OsExit (Print usage_header # map (\<lambda>k. Print (''  '' @ k @ [CHR 0x0A])) order) 1
   \<longleftrightarrow> (length args = 0 \<or> prefix ''-'' (args ! 0)
         \<or> args ! 0 \<notin> set (map fst (commands h)))"
proof (cases "length args = 0 \<or> prefix ''-'' (args ! 0)")
  case True
  then have "separateSub args = ([], args)"
    by (simp add: separateSub_def)
  then show ?thesis
    using True commands_lookup_none [OF empty_not_command, of h]
    by (auto simp: Do_def)
next
  case False
  then have sub: "separateSub args = (args ! 0, drop 1 args)"
    by (simp add: separateSub_def)
  show ?thesis
  proof (cases "args ! 0 \<in> set (map fst (commands h))")
    case True
    then obtain fn where "map_of (commands h) (args ! 0) = Some fn"
      using commands_lookup_some by blast
    then show ?thesis
      using sub False True
      by (auto simp: Do_def checker_Exit_def elem_at_def split: outcome.splits)
  next
    case unregistered: False
    then show ?thesis
      using sub commands_lookup_none [OF unregistered]
      by (simp add: Do_def)
  qed
qed

text \<open>
  C9, as stated, says that the usage path exits with a code distinct from the four
  check-result codes. With no argument the process prints the usage text and the four
  names and ends in \<^verbatim>\<open>os.Exit(1)\<close>: 1 is the exit code of WARNING.
\<close>

theorem Do_usage_exit_counterexample:
  "Do \<lparr>checkReplication = (\<lambda>argv. Returned (NewChecker OK (Msg ''replication''))),
       checkConnection = (\<lambda>argv. Returned (NewChecker OK (Msg ''connection''))),
       checkUptime = (\<lambda>argv. Returned (NewChecker OK (Msg ''uptime''))),
       checkReadOnly = (\<lambda>argv. Returned (NewChecker OK (Msg ''readonly'')))\<rparr>
      [''replication'', ''connection'', ''uptime'', ''readonly''] []
     = OsExit [Print usage_header,
               Print (''  replication'' @ [CHR 0x0A]), Print (''  connection'' @ [CHR 0x0A]),
               Print (''  uptime'' @ [CHR 0x0A]), Print (''  readonly'' @ [CHR 0x0A])]
         (exit_code WARNING)"
  by (simp add: Do_def separateSub_def commands_def)

text \<open>
  C9, amended. For every argument list whose first argument is absent, begins with \<open>-\<close>
  or names no registered subcommand (and for no other argument list), the process prints
  the usage header and one line per subcommand name that \<^verbatim>\<open>range commands\<close> visits,
  calls no subcommand, prints no status line, and exits with code 1. The registered names
  are replication, connection, uptime and readonly. The code 1 is non-zero, and it is the
  code that a WARNING result exits with.
\<close>

theorem Do_usage_exit:
  "(length args = 0 \<or> prefix ''-'' (args ! 0)
      \<or> args ! 0 \<notin> set [''replication'', ''connection'', ''uptime'', ''readonly''])
   = (Do h order args
       = OsExit (Print usage_header # map (\<lambda>k. Print (''  '' @ k @ [CHR 0x0A])) order) 1)
   \<and> map fst (commands h) = [''replication'', ''connection'', ''uptime'', ''readonly'']
   \<and> exit_code WARNING = 1"
  using Do_usage_iff [of h order args] by (simp add: commands_keys)

text \<open>
  The theorem at two argument lists: the unregistered name \<open>status\<close> takes the usage
  path, the registered name \<open>uptime\<close> does not.
\<close>

theorem Do_usage_exit_witness:
  "Do \<lparr>checkReplication = (\<lambda>argv. Returned (NewChecker OK (Msg ''replication''))),
       checkConnection = (\<lambda>argv. Returned (NewChecker OK (Msg ''connection''))),
       checkUptime = (\<lambda>argv. Returned (NewChecker OK (Msg ''uptime''))),
       checkReadOnly = (\<lambda>argv. Returned (NewChecker OK (Msg ''readonly'')))\<rparr>
      [''uptime'', ''readonly'', ''replication'', ''connection''] [''status'', ''-H'', ''db1'']
     = OsExit (Print usage_header
               # map (\<lambda>k. Print (''  '' @ k @ [CHR 0x0A]))
                   [''uptime'', ''readonly'', ''replication'', ''connection'']) 1
   \<and> Do \<lparr>checkReplication = (\<lambda>argv. Returned (NewChecker OK (Msg ''replication''))),
       checkConnection = (\<lambda>argv. Returned (NewChecker OK (Msg ''connection''))),
       checkUptime = (\<lambda>argv. Returned (NewChecker OK (Msg ''uptime''))),
       checkReadOnly = (\<lambda>argv. Returned (NewChecker OK (Msg ''readonly'')))\<rparr>
      [''uptime'', ''readonly'', ''replication'', ''connection''] [''uptime'', ''-H'', ''db1'']
     \<noteq> OsExit (Print usage_header
               # map (\<lambda>k. Print (''  '' @ k @ [CHR 0x0A]))
                   [''uptime'', ''readonly'', ''replication'', ''connection'']) 1"
proof -
  let ?h = "\<lparr>checkReplication = (\<lambda>argv. Returned (NewChecker OK (Msg ''replication''))),
       checkConnection = (\<lambda>argv. Returned (NewChecker OK (Msg ''connection''))),
       checkUptime = (\<lambda>argv. Returned (NewChecker OK (Msg ''uptime''))),
       checkReadOnly = (\<lambda>argv. Returned (NewChecker OK (Msg ''readonly'')))\<rparr>"
  let ?order = "[''uptime'', ''readonly'', ''replication'', ''connection'']"
  have a: "length [''status'', ''-H'', ''db1''] = 0 \<or> prefix ''-'' ([''status'', ''-H'', ''db1''] ! 0)
      \<or> [''status'', ''-H'', ''db1''] ! 0 \<notin> set [''replication'', ''connection'', ''uptime'', ''readonly'']"
    by simp
  have b: "\<not> (length [''uptime'', ''-H'', ''db1''] = 0 \<or> prefix ''-'' ([''uptime'', ''-H'', ''db1''] ! 0)
      \<or> [''uptime'', ''-H'', ''db1''] ! 0 \<notin> set [''replication'', ''connection'', ''uptime'', ''readonly''])"
    by simp
  from a Do_usage_exit [of "[''status'', ''-H'', ''db1'']" ?h ?order, THEN conjunct1]
  have one: "Do ?h ?order [''status'', ''-H'', ''db1'']
     = OsExit (Print usage_header # map (\<lambda>k. Print (''  '' @ k @ [CHR 0x0A])) ?order) 1"
    by (rule rev_iffD1)
  from b Do_usage_exit [of "[''uptime'', ''-H'', ''db1'']" ?h ?order, THEN conjunct1]
  have two: "Do ?h ?order [''uptime'', ''-H'', ''db1'']
     \<noteq> OsExit (Print usage_header # map (\<lambda>k. Print (''  '' @ k @ [CHR 0x0A])) ?order) 1"
    by blast
  from one two show ?thesis
    by (rule conjI)
qed


section \<open>Properties of check-cloudwatch-logs\<close>

text \<open>
  C1. For every argument list that the flag parser accepts, whatever the parsed options
  hold for \<^verbatim>\<open>--warning-over\<close> and \<^verbatim>\<open>--critical-over\<close>, the plugin instance that
  \<^verbatim>\<open>newCloudwatchLogsPlugin\<close> returns has \<open>WarningOver = 0\<close> and \<open>CriticalOver = 0\<close>:
  the struct literal sets the service, the log group name and the pattern only.
\<close>

theorem newCloudwatchLogsPlugin_thresholds:
  "(\<forall>p. newCloudwatchLogsPlugin lib args = Returned (Inr p) \<longrightarrow>
        cloudwatchLogsPlugin.WarningOver p = 0 \<and> cloudwatchLogsPlugin.CriticalOver p = 0)
   \<and> (\<forall>opts service. ParseArgs lib args = Inr opts \<and> createService lib opts = Inr service \<longrightarrow>
        newCloudwatchLogsPlugin lib args
          = Returned (Inr \<lparr>Service = service,
                            LogGroupName = logOpts.LogGroupName opts,
                            Pattern = logOpts.Pattern opts,
                            WarningOver = 0, CriticalOver = 0\<rparr>))"
  by (auto simp: newCloudwatchLogsPlugin_def split: sum.splits)

text \<open>
  The theorem where the parser read \<open>-w 5 -c 10\<close>: the instance is returned, with both
  thresholds 0.
\<close>

theorem newCloudwatchLogsPlugin_thresholds_witness:
  "(\<exists>p. newCloudwatchLogsPlugin
          \<lparr>ParseArgs = (\<lambda>args. Inr \<lparr>logOpts.Region = ''eu-west-1'', AccessKeyID = [],
                                      SecretAccessKey = [], LogGroupName = ''app'',
                                      Pattern = ''ERROR'', WarningOver = 5,
                                      CriticalOver = 10\<rparr>),
           NewSession = Inr (),
           New = (\<lambda>sess config input (w::nat). (Inl (External ''offline''), w))\<rparr>
          [''--log-group-name'', ''app'', ''--pattern'', ''ERROR'', ''-w'', ''5'', ''-c'', ''10'']
        = Returned (Inr p)
      \<and> cloudwatchLogsPlugin.WarningOver p = 0 \<and> cloudwatchLogsPlugin.CriticalOver p = 0
      \<and> cloudwatchLogsPlugin.LogGroupName p = ''app'')"
proof -
  let ?lib = "\<lparr>ParseArgs = (\<lambda>args. Inr \<lparr>logOpts.Region = ''eu-west-1'', AccessKeyID = [],
                                      SecretAccessKey = [], LogGroupName = ''app'',
                                      Pattern = ''ERROR'', WarningOver = 5,
                                      CriticalOver = 10\<rparr>),
           NewSession = Inr (),
           New = (\<lambda>sess config input (w::nat). (Inl (External ''offline''), w))\<rparr>"
  let ?args = "[''--log-group-name'', ''app'', ''--pattern'', ''ERROR'', ''-w'', ''5'', ''-c'', ''10'']"
  obtain p where ret: "newCloudwatchLogsPlugin ?lib ?args = Returned (Inr p)"
    and name: "cloudwatchLogsPlugin.LogGroupName p = ''app''"
    by (simp add: newCloudwatchLogsPlugin_def createService_def)
  from newCloudwatchLogsPlugin_thresholds [of ?lib ?args, THEN conjunct1, rule_format, OF ret]
  have "cloudwatchLogsPlugin.WarningOver p = 0 \<and> cloudwatchLogsPlugin.CriticalOver p = 0" .
  with ret name show ?thesis
    by blast
qed

lemma append_events_elems:
  "append_events msgs evs = Some msgs' \<Longrightarrow>
     elems msgs' = elems msgs
        @ concat (map (\<lambda>ev. case Message ev of None \<Rightarrow> [] | Some m \<Rightarrow> [m]) evs)"
  by (induction evs arbitrary: msgs) (auto split: option.splits)

lemma append_events_present:
  "map Message evs = map Some ms \<Longrightarrow>
     append_events msgs evs = Some (if ms = [] then msgs else Some (elems msgs @ ms))"
proof (induction evs arbitrary: msgs ms)
  case Nil
  then show ?case by simp
next
  case (Cons ev evs)
  then obtain m ms' where ms: "ms = m # ms'" "Message ev = Some m" "map Message evs = map Some ms'"
    by (cases ms) auto
  from Cons.IH [OF ms(3), of "Some (elems msgs @ [m])"] ms show ?case
    by simp
qed

text \<open>
  The invariant of the query loop, for a loop that ends: the calls it adds to the record
  (\<open>new\<close>) are its own; when it returns messages, the new calls are a complete pagination
  and the messages are the ones it had, followed by the messages of every response in
  order; and an error in any response is what it returns.
\<close>

lemma run_loop_trace:
  assumes "run_loop rt p tok msgs calls w = Some y"
  shows "\<exists>new. fst (snd y) = calls @ new
     \<and> (\<forall>msgs'. fst y = Returned (Inr msgs') \<longrightarrow>
           pages tok new \<and> elems msgs' = elems msgs @ concat (map response_messages new))
     \<and> (\<forall>i e. (i, Inl e) \<in> set new \<longrightarrow> fst y = Returned (Inl e))"
  using assms
proof (induction rule: run_loop.raw_induct[rotated 1, consumes 1])
  case (1 run_loop rt p tok msgs calls w y)
  let ?input = "filterInput rt p tok w"
  let ?resp = "Service p ?input w"
  let ?c = "(?input, fst ?resp)"
  have tokin: "FilterLogEventsInput.NextToken ?input = tok"
    by (simp add: filterInput_def)
  show ?case
  proof (cases "fst ?resp")
    case (Inl err)
    with 1(2) have "y = (Returned (Inl err), calls @ [?c], snd ?resp)"
      by (simp add: Let_def)
    then show ?thesis
      using Inl by (intro exI [of _ "[?c]"]) auto
  next
    case (Inr out)
    show ?thesis
    proof (cases "append_events msgs (Events out)")
      case None
      with 1(2) Inr have "y = (Panicked, calls @ [?c], snd ?resp)"
        by (simp add: Let_def)
      then show ?thesis
        using Inr by (intro exI [of _ "[?c]"]) auto
    next
      case (Some msgs1)
      note el = append_events_elems [OF Some]
      have rtok: "response_token ?c = FilterLogEventsOutput.NextToken out"
        using Inr by (simp add: response_token_def)
      have rmsg: "response_messages ?c
          = concat (map (\<lambda>ev. case Message ev of None \<Rightarrow> [] | Some m \<Rightarrow> [m]) (Events out))"
        using Inr by (simp add: response_messages_def)
      show ?thesis
      proof (cases "FilterLogEventsOutput.NextToken out = None")
        case True
        with 1(2) Inr Some have "y = (Returned (Inr msgs1), calls @ [?c], snd ?resp)"
          by (simp add: Let_def)
        then show ?thesis
          using Inr True el tokin rtok rmsg
          by (intro exI [of _ "[?c]"]) auto
      next
        case False
        with 1(2) Inr Some
        have "run_loop rt p (FilterLogEventsOutput.NextToken out) msgs1 (calls @ [?c])
                (Sleep rt 250 (snd ?resp)) = Some y"
          by (simp add: Let_def)
        from 1(1) [OF this] obtain new where
          n: "fst (snd y) = (calls @ [?c]) @ new"
          "\<forall>msgs'. fst y = Returned (Inr msgs') \<longrightarrow>
             pages (FilterLogEventsOutput.NextToken out) new
             \<and> elems msgs' = elems msgs1 @ concat (map response_messages new)"
          "\<forall>i e. (i, Inl e) \<in> set new \<longrightarrow> fst y = Returned (Inl e)"
          by blast
        show ?thesis
          using n Inr False el tokin rtok rmsg
          by (intro exI [of _ "?c # new"]) auto
      qed
    qed
  qed
qed

text \<open>One turn of the loop, by the response of the service.\<close>

lemma run_loop_error:
  assumes "Service p (filterInput rt p tok w) w = (Inl err, w')"
  shows "run_loop rt p tok msgs calls w
    = Some (Returned (Inl err), calls @ [(filterInput rt p tok w, Inl err)], w')"
  using assms by (subst run_loop.simps) (simp add: Let_def)

lemma run_loop_last:
  assumes "Service p (filterInput rt p tok w) w = (Inr out, w')"
    and "FilterLogEventsOutput.NextToken out = None"
    and "map Message (Events out) = map Some ms"
  shows "run_loop rt p tok msgs calls w
    = Some (Returned (Inr (if ms = [] then msgs else Some (elems msgs @ ms))),
            calls @ [(filterInput rt p tok w, Inr out)], w')"
  using assms append_events_present [OF assms(3), of msgs]
  by (subst run_loop.simps) (simp add: Let_def)

lemma run_loop_next:
  assumes "Service p (filterInput rt p tok w) w = (Inr out, w')"
    and "FilterLogEventsOutput.NextToken out = Some t"
    and "map Message (Events out) = map Some ms"
  shows "run_loop rt p tok msgs calls w
    = run_loop rt p (Some t) (if ms = [] then msgs else Some (elems msgs @ ms))
        (calls @ [(filterInput rt p tok w, Inr out)]) (Sleep rt 250 w')"
  using assms append_events_present [OF assms(3), of msgs]
  by (subst run_loop.simps) (simp add: Let_def)

text \<open>
  C2. Where the service answers the first three requests of the loop with the continuation
  tokens \<open>t1\<close>, \<open>t2\<close> and none, carrying 3, 4 and 0 messages, the method \<^verbatim>\<open>run\<close> returns:
  it has issued exactly these three requests (the first with no token, then with \<open>t1\<close>,
  then with \<open>t2\<close>), and its result is the list of the 7 messages in the order received.
  In general, whenever the method returns messages, its requests form a complete
  pagination (each carries the token of the response before, every response but the last
  has a token, the last has none) and the result is every returned message, in order.
\<close>

theorem cloudwatchLogsPlugin_run_paginates:
  "(Service p (filterInput rt p None w0) w0 = (Inr o1, w1)
      \<and> Service p (filterInput rt p (Some t1) (Sleep rt 250 w1)) (Sleep rt 250 w1) = (Inr o2, w2)
      \<and> Service p (filterInput rt p (Some t2) (Sleep rt 250 w2)) (Sleep rt 250 w2) = (Inr o3, w3)
      \<and> FilterLogEventsOutput.NextToken o1 = Some t1
      \<and> FilterLogEventsOutput.NextToken o2 = Some t2
      \<and> FilterLogEventsOutput.NextToken o3 = None
      \<and> map Message (Events o1) = map Some ms1 \<and> length ms1 = 3
      \<and> map Message (Events o2) = map Some ms2 \<and> length ms2 = 4
      \<and> map Message (Events o3) = map Some ms3 \<and> length ms3 = 0
    \<longrightarrow> cloudwatchLogsPlugin_run rt p w0
          = Some (Returned (Inr (Some (ms1 @ ms2 @ ms3))),
                  [(filterInput rt p None w0, Inr o1),
                   (filterInput rt p (Some t1) (Sleep rt 250 w1), Inr o2),
                   (filterInput rt p (Some t2) (Sleep rt 250 w2), Inr o3)],
                  w3)
        \<and> length (ms1 @ ms2 @ ms3) = 7)
   \<and> (\<forall>msgs calls w'.
         cloudwatchLogsPlugin_run rt p w0 = Some (Returned (Inr msgs), calls, w') \<longrightarrow>
           pages None calls \<and> elems msgs = concat (map response_messages calls))"
proof (intro conjI impI allI)
  assume a: "Service p (filterInput rt p None w0) w0 = (Inr o1, w1)
      \<and> Service p (filterInput rt p (Some t1) (Sleep rt 250 w1)) (Sleep rt 250 w1) = (Inr o2, w2)
      \<and> Service p (filterInput rt p (Some t2) (Sleep rt 250 w2)) (Sleep rt 250 w2) = (Inr o3, w3)
      \<and> FilterLogEventsOutput.NextToken o1 = Some t1
      \<and> FilterLogEventsOutput.NextToken o2 = Some t2
      \<and> FilterLogEventsOutput.NextToken o3 = None
      \<and> map Message (Events o1) = map Some ms1 \<and> length ms1 = 3
      \<and> map Message (Events o2) = map Some ms2 \<and> length ms2 = 4
      \<and> map Message (Events o3) = map Some ms3 \<and> length ms3 = 0"
  then have ne: "ms1 \<noteq> []" "ms2 \<noteq> []" "ms3 = []"
    by auto
  from a have s1: "Service p (filterInput rt p None w0) w0 = (Inr o1, w1)"
    and s2: "Service p (filterInput rt p (Some t1) (Sleep rt 250 w1)) (Sleep rt 250 w1) = (Inr o2, w2)"
    and s3: "Service p (filterInput rt p (Some t2) (Sleep rt 250 w2)) (Sleep rt 250 w2) = (Inr o3, w3)"
    and t: "FilterLogEventsOutput.NextToken o1 = Some t1"
      "FilterLogEventsOutput.NextToken o2 = Some t2"
      "FilterLogEventsOutput.NextToken o3 = None"
    and m: "map Message (Events o1) = map Some ms1" "map Message (Events o2) = map Some ms2"
      "map Message (Events o3) = map Some ms3"
    by simp_all
  show "cloudwatchLogsPlugin_run rt p w0
          = Some (Returned (Inr (Some (ms1 @ ms2 @ ms3))),
                  [(filterInput rt p None w0, Inr o1),
                   (filterInput rt p (Some t1) (Sleep rt 250 w1), Inr o2),
                   (filterInput rt p (Some t2) (Sleep rt 250 w2), Inr o3)],
                  w3)"
    unfolding cloudwatchLogsPlugin_run_def
    by (simp add: run_loop_next [OF s1 t(1) m(1)] run_loop_next [OF s2 t(2) m(2)]
        run_loop_last [OF s3 t(3) m(3)] ne)
  from a show "length (ms1 @ ms2 @ ms3) = 7"
    by simp
next
  fix msgs calls w'
  assume "cloudwatchLogsPlugin_run rt p w0 = Some (Returned (Inr msgs), calls, w')"
  then have "run_loop rt p None None [] w0 = Some (Returned (Inr msgs), calls, w')"
    by (simp add: cloudwatchLogsPlugin_run_def)
  from run_loop_trace [OF this]
  show "pages None calls" and "elems msgs = concat (map response_messages calls)"
    by auto
qed

text \<open>
  The theorem on a service that pages by token: three messages and \<open>t1\<close> for the request
  without token, four and \<open>t2\<close> for \<open>t1\<close>, an empty last page for \<open>t2\<close>. The state of the
  world counts the requests served.
\<close>

theorem cloudwatchLogsPlugin_run_paginates_witness:
  "cloudwatchLogsPlugin_run
     \<lparr>Now = (\<lambda>w. 1700000000), Sleep = (\<lambda>ms w. w)\<rparr>
     \<lparr>Service = (\<lambda>input (n::nat).
        (if FilterLogEventsInput.NextToken input = None
         then Inr \<lparr>Events = [\<lparr>Message = Some ''a''\<rparr>, \<lparr>Message = Some ''b''\<rparr>,
                              \<lparr>Message = Some ''c''\<rparr>],
                    NextToken = Some ''t1''\<rparr>
         else if FilterLogEventsInput.NextToken input = Some ''t1''
         then Inr \<lparr>Events = [\<lparr>Message = Some ''d''\<rparr>, \<lparr>Message = Some ''e''\<rparr>,
                              \<lparr>Message = Some ''f''\<rparr>, \<lparr>Message = Some ''g''\<rparr>],
                    NextToken = Some ''t2''\<rparr>
         else Inr \<lparr>Events = [], NextToken = None\<rparr>, Suc n)),
      LogGroupName = ''app'', Pattern = ''ERROR'', WarningOver = 0, CriticalOver = 0\<rparr>
     0
   = Some (Returned (Inr (Some [''a'', ''b'', ''c'', ''d'', ''e'', ''f'', ''g''])),
       [(\<lparr>StartTime = 1699999700000, LogGroupName = ''app'', NextToken = None,
           FilterPattern = ''ERROR''\<rparr>,
         Inr \<lparr>Events = [\<lparr>Message = Some ''a''\<rparr>, \<lparr>Message = Some ''b''\<rparr>,
                           \<lparr>Message = Some ''c''\<rparr>],
                 NextToken = Some ''t1''\<rparr>),
        (\<lparr>StartTime = 1699999700000, LogGroupName = ''app'', NextToken = Some ''t1'',
           FilterPattern = ''ERROR''\<rparr>,
         Inr \<lparr>Events = [\<lparr>Message = Some ''d''\<rparr>, \<lparr>Message = Some ''e''\<rparr>,
                           \<lparr>Message = Some ''f''\<rparr>, \<lparr>Message = Some ''g''\<rparr>],
                 NextToken = Some ''t2''\<rparr>),
        (\<lparr>StartTime = 1699999700000, LogGroupName = ''app'', NextToken = Some ''t2'',
           FilterPattern = ''ERROR''\<rparr>,
         Inr \<lparr>Events = [], NextToken = None\<rparr>)],
       3)"
proof -
  let ?rt = "\<lparr>Now = (\<lambda>w::nat. 1700000000::int), Sleep = (\<lambda>(ms::nat) (w::nat). w)\<rparr>"
  let ?o1 = "\<lparr>Events = [\<lparr>Message = Some ''a''\<rparr>, \<lparr>Message = Some ''b''\<rparr>,
                              \<lparr>Message = Some ''c''\<rparr>],
                    NextToken = Some ''t1''\<rparr>"
  let ?o2 = "\<lparr>Events = [\<lparr>Message = Some ''d''\<rparr>, \<lparr>Message = Some ''e''\<rparr>,
                              \<lparr>Message = Some ''f''\<rparr>, \<lparr>Message = Some ''g''\<rparr>],
                    NextToken = Some ''t2''\<rparr>"
  let ?o3 = "\<lparr>Events = [], NextToken = None\<rparr>"
  let ?p = "\<lparr>Service = (\<lambda>input (n::nat).
        (if FilterLogEventsInput.NextToken input = None then Inr ?o1
         else if FilterLogEventsInput.NextToken input = Some ''t1'' then Inr ?o2
         else Inr ?o3, Suc n)),
      LogGroupName = ''app'', Pattern = ''ERROR'', WarningOver = 0, CriticalOver = 0\<rparr>"
  have pre: "Service ?p (filterInput ?rt ?p None 0) 0 = (Inr ?o1, 1)
      \<and> Service ?p (filterInput ?rt ?p (Some ''t1'') (Sleep ?rt 250 1)) (Sleep ?rt 250 1)
          = (Inr ?o2, 2)
      \<and> Service ?p (filterInput ?rt ?p (Some ''t2'') (Sleep ?rt 250 2)) (Sleep ?rt 250 2)
          = (Inr ?o3, 3)
      \<and> FilterLogEventsOutput.NextToken ?o1 = Some ''t1''
      \<and> FilterLogEventsOutput.NextToken ?o2 = Some ''t2''
      \<and> FilterLogEventsOutput.NextToken ?o3 = None
      \<and> map Message (Events ?o1) = map Some [''a'', ''b'', ''c'']
      \<and> length [''a'', ''b'', ''c''] = 3
      \<and> map Message (Events ?o2) = map Some [''d'', ''e'', ''f'', ''g'']
      \<and> length [''d'', ''e'', ''f'', ''g''] = 4
      \<and> map Message (Events ?o3) = map Some [] \<and> length ([]::string list) = 0"
    by (simp add: filterInput_def)
  from cloudwatchLogsPlugin_run_paginates
    [of ?p ?rt 0 ?o1 1 "''t1''" ?o2 2 "''t2''" ?o3 3
      "[''a'', ''b'', ''c'']" "[''d'', ''e'', ''f'', ''g'']" "[]",
     THEN conjunct1, rule_format, OF pre, THEN conjunct1]
  show ?thesis
    by (simp add: filterInput_def)
qed

text \<open>
  C3. The evaluation step: for a message list that is not nil, the status is CRITICAL when
  the count is over the critical threshold, else WARNING when it is over the warning
  threshold, else OK (a count equal to a threshold is not over it), and the message is the
  concatenation of the lines; for the nil list, to which nothing was ever appended, the
  result is OK with the fixed message \<open>ok\<close>. With thresholds that are not negative the
  three-way rule gives the status of every list, nil or not. With warning 5 and critical
  10 the counts 0, 5, 6, 10 and 11 are OK, OK, WARNING, WARNING and CRITICAL.
\<close>

theorem evaluate_classifies:
  "(messages \<noteq> None \<longrightarrow>
      evaluate p messages
        = NewChecker (if len messages > cloudwatchLogsPlugin.CriticalOver p then CRITICAL
                      else if len messages > cloudwatchLogsPlugin.WarningOver p then WARNING
                      else OK)
            (Msg (concat (elems messages))))
   \<and> evaluate p None = NewChecker OK (Msg ''ok'')
   \<and> (0 \<le> cloudwatchLogsPlugin.WarningOver p \<and> 0 \<le> cloudwatchLogsPlugin.CriticalOver p \<longrightarrow>
        Status (evaluate p messages)
          = (if len messages > cloudwatchLogsPlugin.CriticalOver p then CRITICAL
             else if len messages > cloudwatchLogsPlugin.WarningOver p then WARNING
             else OK))
   \<and> (cloudwatchLogsPlugin.WarningOver p = 5 \<and> cloudwatchLogsPlugin.CriticalOver p = 10 \<longrightarrow>
        (len messages = 0 \<longrightarrow> Status (evaluate p messages) = OK)
        \<and> (len messages = 5 \<longrightarrow> Status (evaluate p messages) = OK)
        \<and> (len messages = 6 \<longrightarrow> Status (evaluate p messages) = WARNING)
        \<and> (len messages = 10 \<longrightarrow> Status (evaluate p messages) = WARNING)
        \<and> (len messages = 11 \<longrightarrow> Status (evaluate p messages) = CRITICAL))"
  by (auto simp: evaluate_def NewChecker_def len_def)

text \<open>The theorem on an instance with the thresholds 5 and 10 and a list of six lines.\<close>

theorem evaluate_classifies_witness:
  "evaluate
     \<lparr>Service = (\<lambda>input (w::nat). (Inl (External ''offline''), w)),
      LogGroupName = ''app'', Pattern = ''ERROR'', WarningOver = 5, CriticalOver = 10\<rparr>
     (Some [''l1 '', ''l2 '', ''l3 '', ''l4 '', ''l5 '', ''l6 ''])
   = NewChecker WARNING (Msg ''l1 l2 l3 l4 l5 l6 '')"
proof -
  let ?p = "\<lparr>Service = (\<lambda>input (w::nat). (Inl (External ''offline''), w)),
      LogGroupName = ''app'', Pattern = ''ERROR'', WarningOver = 5, CriticalOver = 10\<rparr>"
  let ?m = "Some [''l1 '', ''l2 '', ''l3 '', ''l4 '', ''l5 '', ''l6 '']"
  have "?m \<noteq> None"
    by simp
  from evaluate_classifies [of ?m ?p, THEN conjunct1, rule_format, OF this]
  show ?thesis
    by (simp add: len_def)
qed


section \<open>Properties of check-ntpoffset\<close>

lemma Index_from_range: "Index_from i s sub = - 1 \<or> int i \<le> Index_from i s sub"
  by (induction i s sub rule: Index_from.induct) auto

lemma Index_zero_iff: "Index s sub = 0 \<longleftrightarrow> prefix sub s"
proof (cases s)
  case Nil
  then show ?thesis by (simp add: Index_def)
next
  case (Cons c cs)
  show ?thesis
    using Index_from_range [of "Suc 0" cs sub] Cons
    by (auto simp: Index_def)
qed

lemma Split_no_sep: "x \<in> set (Split s c) \<Longrightarrow> c \<notin> set x"
  by (induction s arbitrary: x) (auto split: if_splits list.splits)

lemma length_Split: "length (Split s c) = Suc (count_list s c)"
  by (induction s) (auto split: list.splits)

lemma dropWhile_none: "\<forall>x \<in> set s. \<not> P x \<Longrightarrow> dropWhile P s = s"
  by (cases s) auto

lemma Trim_id: "set s \<inter> set cutset = {} \<Longrightarrow> Trim s cutset = s"
  by (simp add: Trim_def dropWhile_none disjoint_iff)

lemma Split_line_no_newline:
  assumes "i < length (Split data c)"
  shows "c \<notin> set (Split data c ! i)"
  using Split_no_sep [OF nth_mem [OF assms]] .

lemma Split_union_subset: "\<Union> (set ` set (Split s d)) \<subseteq> set s"
proof (induction s)
  case Nil
  then show ?case by simp
next
  case (Cons a s)
  obtain x xs where sp: "Split s d = x # xs"
    using Split_nonempty [of s d] by (cases "Split s d") auto
  have "set x \<subseteq> set s" "\<Union> (set ` set xs) \<subseteq> set s"
    using Cons sp by auto
  then show ?case
    using sp by (cases "a = d") auto
qed

lemma Split_subset: "x \<in> set (Split s d) \<Longrightarrow> set x \<subseteq> set s"
  using Split_union_subset [of s d] by blast

lemma Split_Split_no_newline:
  assumes "i < length (Split data c)" "j < length (Split (Split data c ! i) d)"
  shows "c \<notin> set (Split (Split data c ! i) d ! j)"
  using Split_line_no_newline [OF assms(1)] Split_subset [OF nth_mem [OF assms(2)]]
  by blast

text \<open>
  The parser on a stream that is read without error. The value of the pair holds no
  newline, since it is cut from a line: the trim changes nothing.
\<close>

lemma parseNTPOffsetFromNTPD_eq:
  "parseNTPOffsetFromNTPD h \<lparr>content = data, read_err = None\<rparr> =
     (let lines = Split data CHR 0x0A in
      if length lines = 2 \<or> (length lines = 3 \<and> prefix ''assID=0'' (lines ! 0)) then
        (let line = (if length lines = 2 then lines ! 0 else lines ! 1);
             kv = Split line CHR ''=''
         in if length kv = 2 then ParseFloat h (kv ! 1) else Inl ntpdDown)
      else Inl ntpdDown)"
proof -
  let ?lines = "Split data CHR 0x0A"
  have trim: "Trim (Split (?lines ! i) CHR ''='' ! Suc 0) [CHR 0x0A]
        = Split (?lines ! i) CHR ''='' ! Suc 0"
    if "i < length ?lines" "length (Split (?lines ! i) CHR ''='') = 2" for i
    using Split_Split_no_newline [of i data "CHR 0x0A" "Suc 0" "CHR ''=''"] that
    by (intro Trim_id) auto
  show ?thesis
    by (auto simp: parseNTPOffsetFromNTPD_def ReadAll_def Let_def Index_zero_iff trim)
qed

lemmas ntpd_eval = parseNTPOffsetFromNTPD_def ReadAll_def Index_def Trim_def Let_def

text \<open>
  C5. The ntpd parser reads the whole output and splits it at the newlines. With exactly 2
  lines it takes the first; with exactly 3 lines it takes the second, and only when the
  first begins with \<open>assID=0\<close>; the line taken must split at \<open>=\<close> into exactly two parts
  (it holds exactly one \<open>=\<close>), and the result is the second part given to
  \<^verbatim>\<open>strconv.ParseFloat\<close> (trimming newlines from it changes nothing). Every other number
  of lines, 3 lines with another first line, and a line with no or several \<open>=\<close> give the
  format error; a read error is returned as it is. The 3-line output of the old ntpq
  parses as \<open>0.180\<close> and the 2-line output \<open>offset=12.5\<close> as \<open>12.5\<close>.
\<close>

theorem parseNTPOffsetFromNTPD_format:
  "parseNTPOffsetFromNTPD h \<lparr>content = data, read_err = None\<rparr> =
     (let lines = Split data CHR 0x0A in
      if length lines = 2 \<or> (length lines = 3 \<and> prefix ''assID=0'' (lines ! 0)) then
        (let line = (if length lines = 2 then lines ! 0 else lines ! 1);
             kv = Split line CHR ''=''
         in if length kv = 2 then ParseFloat h (kv ! 1) else Inl ntpdDown)
      else Inl ntpdDown)
   \<and> parseNTPOffsetFromNTPD h \<lparr>content = data, read_err = Some e\<rparr> = Inl e
   \<and> length (Split data CHR 0x0A) = Suc (count_list data CHR 0x0A)
   \<and> (length (Split line CHR ''='') = 2) = (count_list line CHR ''='' = 1)
   \<and> parseNTPOffsetFromNTPD h \<lparr>content = ''assID=0 status=06f4 ...\<newline>offset=0.180\<newline>'', read_err = None\<rparr>
       = ParseFloat h ''0.180''
   \<and> parseNTPOffsetFromNTPD h \<lparr>content = ''offset=12.5\<newline>'', read_err = None\<rparr>
       = ParseFloat h ''12.5''
   \<and> parseNTPOffsetFromNTPD h \<lparr>content = ''status=06f4 ...\<newline>offset=0.180\<newline>'', read_err = None\<rparr>
       = Inl ntpdDown
   \<and> parseNTPOffsetFromNTPD h \<lparr>content = ''offset=12.5'', read_err = None\<rparr>
       = Inl ntpdDown
   \<and> parseNTPOffsetFromNTPD h \<lparr>content = ''a\<newline>b\<newline>offset=12.5\<newline>'', read_err = None\<rparr>
       = Inl ntpdDown
   \<and> parseNTPOffsetFromNTPD h \<lparr>content = ''offset 12.5\<newline>'', read_err = None\<rparr>
       = Inl ntpdDown
   \<and> parseNTPOffsetFromNTPD h \<lparr>content = ''offset=12.5=ms\<newline>'', read_err = None\<rparr>
       = Inl ntpdDown"
proof (intro conjI)
  show "parseNTPOffsetFromNTPD h \<lparr>content = data, read_err = None\<rparr> =
     (let lines = Split data CHR 0x0A in
      if length lines = 2 \<or> (length lines = 3 \<and> prefix ''assID=0'' (lines ! 0)) then
        (let line = (if length lines = 2 then lines ! 0 else lines ! 1);
             kv = Split line CHR ''=''
         in if length kv = 2 then ParseFloat h (kv ! 1) else Inl ntpdDown)
      else Inl ntpdDown)"
    by (rule parseNTPOffsetFromNTPD_eq)
  show "parseNTPOffsetFromNTPD h \<lparr>content = data, read_err = Some e\<rparr> = Inl e"
    by (simp add: parseNTPOffsetFromNTPD_def ReadAll_def)
  show "length (Split data CHR 0x0A) = Suc (count_list data CHR 0x0A)"
    by (rule length_Split)
  show "(length (Split line CHR ''='') = 2) = (count_list line CHR ''='' = 1)"
    by (simp add: length_Split)
  show "parseNTPOffsetFromNTPD h \<lparr>content = ''assID=0 status=06f4 ...\<newline>offset=0.180\<newline>'', read_err = None\<rparr>
       = ParseFloat h ''0.180''"
    by (simp add: ntpd_eval)
  show "parseNTPOffsetFromNTPD h \<lparr>content = ''offset=12.5\<newline>'', read_err = None\<rparr>
       = ParseFloat h ''12.5''"
    by (simp add: ntpd_eval)
  show "parseNTPOffsetFromNTPD h \<lparr>content = ''status=06f4 ...\<newline>offset=0.180\<newline>'', read_err = None\<rparr>
       = Inl ntpdDown"
    by (simp add: ntpd_eval)
  show "parseNTPOffsetFromNTPD h \<lparr>content = ''offset=12.5'', read_err = None\<rparr>
       = Inl ntpdDown"
    by (simp add: ntpd_eval)
  show "parseNTPOffsetFromNTPD h \<lparr>content = ''a\<newline>b\<newline>offset=12.5\<newline>'', read_err = None\<rparr>
       = Inl ntpdDown"
    by (simp add: ntpd_eval)
  show "parseNTPOffsetFromNTPD h \<lparr>content = ''offset 12.5\<newline>'', read_err = None\<rparr>
       = Inl ntpdDown"
    by (simp add: ntpd_eval)
  show "parseNTPOffsetFromNTPD h \<lparr>content = ''offset=12.5=ms\<newline>'', read_err = None\<rparr>
       = Inl ntpdDown"
    by (simp add: ntpd_eval)
qed

text \<open>
  The theorem on a host whose \<^verbatim>\<open>ParseFloat\<close> reads \<open>12.5\<close>: the 2-line output gives the
  offset 12.5, and the same text behind a line that is not the \<open>assID=0\<close> line is refused.
\<close>

theorem parseNTPOffsetFromNTPD_format_witness:
  "parseNTPOffsetFromNTPD
     \<lparr>flags_ParseArgs = (\<lambda>args. Inr \<lparr>Crit = Finite 100, Warn = Finite 50\<rparr>),
      Getuid = 1000,
      lsof = \<lparr>pipe_err = None, start_err = None, stdout = \<lparr>content = [], read_err = None\<rparr>, wait_err = None\<rparr>,
      ps = \<lparr>pipe_err = None, start_err = None, stdout = \<lparr>content = [], read_err = None\<rparr>, wait_err = None\<rparr>,
      ntpq = \<lparr>pipe_err = None, start_err = None, stdout = \<lparr>content = [], read_err = None\<rparr>, wait_err = None\<rparr>,
      chronyc = \<lparr>pipe_err = None, start_err = None, stdout = \<lparr>content = [], read_err = None\<rparr>, wait_err = None\<rparr>,
      LookPath = (\<lambda>name. Inr name),
      ParseFloat = (\<lambda>s. if s = ''12.5'' then Inr (Finite 12.5) else Inl (NumError ''ParseFloat'' s ErrSyntax)),
      round64 = Finite\<rparr>
     \<lparr>content = ''offset=12.5\<newline>'', read_err = None\<rparr>
   = Inr (Finite 12.5)"
proof -
  let ?h = "\<lparr>flags_ParseArgs = (\<lambda>args. Inr \<lparr>Crit = Finite 100, Warn = Finite 50\<rparr>),
      Getuid = 1000,
      lsof = \<lparr>pipe_err = None, start_err = None, stdout = \<lparr>content = [], read_err = None\<rparr>, wait_err = None\<rparr>,
      ps = \<lparr>pipe_err = None, start_err = None, stdout = \<lparr>content = [], read_err = None\<rparr>, wait_err = None\<rparr>,
      ntpq = \<lparr>pipe_err = None, start_err = None, stdout = \<lparr>content = [], read_err = None\<rparr>, wait_err = None\<rparr>,
      chronyc = \<lparr>pipe_err = None, start_err = None, stdout = \<lparr>content = [], read_err = None\<rparr>, wait_err = None\<rparr>,
      LookPath = (\<lambda>name. Inr name),
      ParseFloat = (\<lambda>s. if s = ''12.5'' then Inr (Finite 12.5) else Inl (NumError ''ParseFloat'' s ErrSyntax)),
      round64 = Finite\<rparr>"
  note second = parseNTPOffsetFromNTPD_format [of ?h,
      THEN conjunct2, THEN conjunct2, THEN conjunct2, THEN conjunct2, THEN conjunct2,
      THEN conjunct1]
  from second show ?thesis
    by simp
qed

text \<open>
  The scanner yields the plain lines of a text in which no line reaches the buffer limit.
\<close>

lemma Split_no_sep_id: "c \<notin> set s \<Longrightarrow> Split s c = [s]"
  by (induction s) auto

lemma Split_first: "c \<notin> set pre \<Longrightarrow> Split (pre @ c # rest) c = pre # Split rest c"
  by (induction pre) auto

lemma text_lines_plain:
  "CHR 0x0A \<notin> set data \<Longrightarrow> text_lines data = (if data = [] then [] else [dropCR data])"
  by (simp add: text_lines_def Split_no_sep_id)

lemma text_lines_first:
  "CHR 0x0A \<notin> set pre \<Longrightarrow> text_lines (pre @ CHR 0x0A # rest) = dropCR pre # text_lines rest"
  using Split_nonempty [of rest "CHR 0x0A"]
  by (simp add: text_lines_def Split_first Let_def)

lemma takeWhile_all: "c \<notin> set xs \<Longrightarrow> takeWhile (\<lambda>x. x \<noteq> c) xs = xs"
  by (induction xs) auto

lemma Scan_line:
  assumes "CHR 0x0A \<notin> set pre" and "length pre < MaxScanTokenSize"
  shows "Scan \<lparr>buf = pre @ CHR 0x0A # rest, failed = False\<rparr>
    = (Some (dropCR pre), \<lparr>buf = rest, failed = False\<rparr>)"
proof -
  let ?w = "take MaxScanTokenSize (pre @ CHR 0x0A # rest)"
  obtain k where k: "MaxScanTokenSize - length pre = Suc k"
    using assms(2) by (cases "MaxScanTokenSize - length pre") auto
  have w: "?w = pre @ CHR 0x0A # take k rest"
    using assms(2) k by simp
  have tw: "takeWhile (\<lambda>c. c \<noteq> CHR 0x0A) (pre @ CHR 0x0A # take k rest) = pre"
    using assms(1) by (simp add: takeWhile_tail takeWhile_all)
  have sl: "ScanLines (pre @ CHR 0x0A # take k rest) False = (length pre + 1, Some (dropCR pre))"
    unfolding ScanLines_def tw Let_def by simp
  have "Scan \<lparr>buf = pre @ CHR 0x0A # rest, failed = False\<rparr>
      = (Some (dropCR pre),
         \<lparr>buf = pre @ CHR 0x0A # rest, failed = False\<rparr>
           \<lparr>buf := drop (length pre + 1) (pre @ CHR 0x0A # rest)\<rparr>)"
    by (simp only: Scan_def Let_def scanner.select_convs if_False w sl prod.case option.case)
  then show ?thesis
    by simp
qed

lemma Scan_last:
  assumes "CHR 0x0A \<notin> set data" and "data \<noteq> []" and "length data < MaxScanTokenSize"
  shows "Scan \<lparr>buf = data, failed = False\<rparr> = (Some (dropCR data), \<lparr>buf = [], failed = True\<rparr>)"
proof -
  have w: "take MaxScanTokenSize data = data"
    using assms(3) by simp
  have tw: "takeWhile (\<lambda>c. c \<noteq> CHR 0x0A) data = data"
    using assms(1) by (simp add: takeWhile_all)
  have "ScanLines data False = (0, None)" "ScanLines data True = (length data, Some (dropCR data))"
    unfolding ScanLines_def tw Let_def using assms(2) by simp_all
  then show ?thesis
    using assms(3) by (simp add: Scan_def Let_def w)
qed

lemma Scan_empty: "Scan \<lparr>buf = [], failed = f\<rparr> = (None, \<lparr>buf = [], failed = True\<rparr>)"
  by (simp add: Scan_def ScanLines_def MaxScanTokenSize_def)

lemma scanned_empty: "scanned \<lparr>buf = [], failed = f\<rparr> = []"
  by (subst scanned.simps) (simp add: Scan_empty)

lemma scanned_text_lines:
  assumes "\<forall>l \<in> set (Split data CHR 0x0A). length l < MaxScanTokenSize"
  shows "scanned \<lparr>buf = data, failed = False\<rparr> = text_lines data"
  using assms
proof (induction "length data" arbitrary: data rule: less_induct)
  case less
  show ?case
  proof (cases "CHR 0x0A \<in> set data")
    case True
    then obtain pre rest where d: "data = pre @ CHR 0x0A # rest" "CHR 0x0A \<notin> set pre"
      by (auto dest: split_list_first)
    with less.prems have short: "length pre < MaxScanTokenSize"
      and rest: "\<forall>l \<in> set (Split rest CHR 0x0A). length l < MaxScanTokenSize"
      by (simp_all add: Split_first)
    have "length rest < length data"
      using d by simp
    from less.hyps [OF this rest]
    have "scanned \<lparr>buf = rest, failed = False\<rparr> = text_lines rest" .
    then show ?thesis
      unfolding d(1)
      by (subst scanned.simps) (simp add: Scan_line [OF d(2) short] text_lines_first [OF d(2)])
  next
    case False
    with less.prems have short: "length data < MaxScanTokenSize"
      by (simp add: Split_no_sep_id)
    show ?thesis
    proof (cases "data = []")
      case True
      then show ?thesis
        by (simp add: scanned_empty text_lines_plain)
    next
      case nonempty: False
      show ?thesis
        by (subst scanned.simps)
          (simp add: Scan_last [OF False nonempty short] scanned_empty text_lines_plain [OF False] nonempty)
    qed
  qed
qed

lemma chrony_loop_find:
  "chrony_loop h ls =
     (case find (prefix ''Last offset'') ls of
        None \<Rightarrow> Inl chronyFailed
      | Some line \<Rightarrow>
          if length (Fields line) = 5 then
            (case ParseFloat h (Fields line ! 3) of
               Inl err \<Rightarrow> Inl err
             | Inr seconds \<Rightarrow> Inr (fmul (round64 h) seconds (Finite 1000)))
          else Inl chronyFailed)"
  by (induction ls) (auto simp: Let_def)

lemmas scan_eval = scanned.simps NewScanner_def Scan_def ScanLines_def MaxScanTokenSize_def
  dropCR_def Let_def

lemmas fields_eval = Fields_def space_width_def

text \<open>
  C6. The chrony parser goes through the lines that the scanner yields, in order, to the
  first line that begins with \<open>Last offset\<close>. That line must have exactly 5 fields
  separated by white space; field 3 is given to \<^verbatim>\<open>strconv.ParseFloat\<close> as seconds and
  the result is its product with 1000, in milliseconds (an error of \<^verbatim>\<open>ParseFloat\<close> is
  returned as it is). Another number of fields on that line, and an input without such a
  line, give the format error. The lines of the scanner are the plain lines of the output
  whenever no line reaches the 64 KiB of the scanner's buffer. The line
  \<open>Last offset     : -0.000123456 seconds\<close> gives 1000 times the float of
  \<open>-0.000123456\<close>; the same line with 4 or 6 fields is an error.
\<close>

theorem parseNTPOffsetFromChrony_format:
  "parseNTPOffsetFromChrony h out =
     (case find (prefix ''Last offset'') (scanned (NewScanner out)) of
        None \<Rightarrow> Inl chronyFailed
      | Some line \<Rightarrow>
          if length (Fields line) = 5 then
            (case ParseFloat h (Fields line ! 3) of
               Inl err \<Rightarrow> Inl err
             | Inr seconds \<Rightarrow> Inr (fmul (round64 h) seconds (Finite 1000)))
          else Inl chronyFailed)
   \<and> ((\<forall>l \<in> set (Split (content out) CHR 0x0A). length l < MaxScanTokenSize) \<longrightarrow>
        scanned (NewScanner out) = text_lines (content out))
   \<and> parseNTPOffsetFromChrony h
         \<lparr>content = ''Last offset     : -0.000123456 seconds\<newline>'', read_err = None\<rparr>
       = (case ParseFloat h ''-0.000123456'' of
            Inl err \<Rightarrow> Inl err
          | Inr seconds \<Rightarrow> Inr (fmul (round64 h) seconds (Finite 1000)))
   \<and> parseNTPOffsetFromChrony h
         \<lparr>content = ''Last offset     : -0.000123456\<newline>'', read_err = None\<rparr>
       = Inl chronyFailed
   \<and> parseNTPOffsetFromChrony h
         \<lparr>content = ''Last offset     : -0.000123456 seconds slow\<newline>'', read_err = None\<rparr>
       = Inl chronyFailed
   \<and> parseNTPOffsetFromChrony h
         \<lparr>content = ''Stratum         : 3\<newline>'', read_err = None\<rparr>
       = Inl chronyFailed"
proof (intro conjI impI)
  assume "\<forall>l \<in> set (Split (content out) CHR 0x0A). length l < MaxScanTokenSize"
  then show "scanned (NewScanner out) = text_lines (content out)"
    unfolding NewScanner_def by (rule scanned_text_lines)
next
  show "parseNTPOffsetFromChrony h out =
     (case find (prefix ''Last offset'') (scanned (NewScanner out)) of
        None \<Rightarrow> Inl chronyFailed
      | Some line \<Rightarrow>
          if length (Fields line) = 5 then
            (case ParseFloat h (Fields line ! 3) of
               Inl err \<Rightarrow> Inl err
             | Inr seconds \<Rightarrow> Inr (fmul (round64 h) seconds (Finite 1000)))
          else Inl chronyFailed)"
    unfolding parseNTPOffsetFromChrony_def by (rule chrony_loop_find)
  have l1: "scanned (NewScanner \<lparr>content = ''Last offset     : -0.000123456 seconds\<newline>'',
      read_err = None\<rparr>) = [''Last offset     : -0.000123456 seconds'']"
    by (simp add: scan_eval)
  have f1: "Fields ''Last offset     : -0.000123456 seconds''
      = [''Last'', ''offset'', '':'', ''-0.000123456'', ''seconds'']"
    by (simp add: fields_eval)
  show "parseNTPOffsetFromChrony h
         \<lparr>content = ''Last offset     : -0.000123456 seconds\<newline>'', read_err = None\<rparr>
       = (case ParseFloat h ''-0.000123456'' of
            Inl err \<Rightarrow> Inl err
          | Inr seconds \<Rightarrow> Inr (fmul (round64 h) seconds (Finite 1000)))"
    unfolding parseNTPOffsetFromChrony_def l1 by (simp add: f1)
  have l2: "scanned (NewScanner \<lparr>content = ''Last offset     : -0.000123456\<newline>'',
      read_err = None\<rparr>) = [''Last offset     : -0.000123456'']"
    by (simp add: scan_eval)
  have f2: "Fields ''Last offset     : -0.000123456''
      = [''Last'', ''offset'', '':'', ''-0.000123456'']"
    by (simp add: fields_eval)
  show "parseNTPOffsetFromChrony h
         \<lparr>content = ''Last offset     : -0.000123456\<newline>'', read_err = None\<rparr>
       = Inl chronyFailed"
    unfolding parseNTPOffsetFromChrony_def l2 by (simp add: f2)
  have l3: "scanned (NewScanner \<lparr>content = ''Last offset     : -0.000123456 seconds slow\<newline>'',
      read_err = None\<rparr>) = [''Last offset     : -0.000123456 seconds slow'']"
    by (simp add: scan_eval)
  have f3: "Fields ''Last offset     : -0.000123456 seconds slow''
      = [''Last'', ''offset'', '':'', ''-0.000123456'', ''seconds'', ''slow'']"
    by (simp add: fields_eval)
  show "parseNTPOffsetFromChrony h
         \<lparr>content = ''Last offset     : -0.000123456 seconds slow\<newline>'', read_err = None\<rparr>
       = Inl chronyFailed"
    unfolding parseNTPOffsetFromChrony_def l3 by (simp add: f3)
  have l4: "scanned (NewScanner \<lparr>content = ''Stratum         : 3\<newline>'',
      read_err = None\<rparr>) = [''Stratum         : 3'']"
    by (simp add: scan_eval)
  show "parseNTPOffsetFromChrony h
         \<lparr>content = ''Stratum         : 3\<newline>'', read_err = None\<rparr>
       = Inl chronyFailed"
    unfolding parseNTPOffsetFromChrony_def l4 by simp
qed


text \<open>
  The theorem on the output of \<^verbatim>\<open>chronyc tracking\<close>, with a \<^verbatim>\<open>ParseFloat\<close> that reads
  \<open>0.125\<close> and an exact product: 125 milliseconds.
\<close>

theorem parseNTPOffsetFromChrony_format_witness:
  "scanned (NewScanner \<lparr>content = ''Reference ID    : 203.0.113.5\<newline>Stratum         : 3\<newline>Last offset     : 0.125 seconds\<newline>RMS offset      : 0.001\<newline>'', read_err = None\<rparr>)
     = [''Reference ID    : 203.0.113.5'', ''Stratum         : 3'',
        ''Last offset     : 0.125 seconds'', ''RMS offset      : 0.001'']
   \<and> parseNTPOffsetFromChrony
     \<lparr>flags_ParseArgs = (\<lambda>args. Inr \<lparr>Crit = Finite 100, Warn = Finite 50\<rparr>),
      Getuid = 1000,
      lsof = \<lparr>pipe_err = None, start_err = None, stdout = \<lparr>content = [], read_err = None\<rparr>, wait_err = None\<rparr>,
      ps = \<lparr>pipe_err = None, start_err = None, stdout = \<lparr>content = [], read_err = None\<rparr>, wait_err = None\<rparr>,
      ntpq = \<lparr>pipe_err = None, start_err = None, stdout = \<lparr>content = [], read_err = None\<rparr>, wait_err = None\<rparr>,
      chronyc = \<lparr>pipe_err = None, start_err = None, stdout = \<lparr>content = [], read_err = None\<rparr>, wait_err = None\<rparr>,
      LookPath = (\<lambda>name. Inr name),
      ParseFloat = (\<lambda>s. if s = ''0.125'' then Inr (Finite 0.125) else Inl (NumError ''ParseFloat'' s ErrSyntax)),
      round64 = Finite\<rparr>
     \<lparr>content = ''Reference ID    : 203.0.113.5\<newline>Stratum         : 3\<newline>Last offset     : 0.125 seconds\<newline>RMS offset      : 0.001\<newline>'', read_err = None\<rparr>
   = Inr (Finite 125)"
proof -
  let ?h = "\<lparr>flags_ParseArgs = (\<lambda>args. Inr \<lparr>Crit = Finite 100, Warn = Finite 50\<rparr>),
      Getuid = 1000,
      lsof = \<lparr>pipe_err = None, start_err = None, stdout = \<lparr>content = [], read_err = None\<rparr>, wait_err = None\<rparr>,
      ps = \<lparr>pipe_err = None, start_err = None, stdout = \<lparr>content = [], read_err = None\<rparr>, wait_err = None\<rparr>,
      ntpq = \<lparr>pipe_err = None, start_err = None, stdout = \<lparr>content = [], read_err = None\<rparr>, wait_err = None\<rparr>,
      chronyc = \<lparr>pipe_err = None, start_err = None, stdout = \<lparr>content = [], read_err = None\<rparr>, wait_err = None\<rparr>,
      LookPath = (\<lambda>name. Inr name),
      ParseFloat = (\<lambda>s. if s = ''0.125'' then Inr (Finite 0.125) else Inl (NumError ''ParseFloat'' s ErrSyntax)),
      round64 = Finite\<rparr>"
  let ?out = "\<lparr>content = ''Reference ID    : 203.0.113.5\<newline>Stratum         : 3\<newline>Last offset     : 0.125 seconds\<newline>RMS offset      : 0.001\<newline>'', read_err = None\<rparr>"
  have short: "\<forall>l \<in> set (Split (content ?out) CHR 0x0A). length l < MaxScanTokenSize"
    by (simp add: MaxScanTokenSize_def)
  note plain = parseNTPOffsetFromChrony_format [of ?h ?out,
      THEN conjunct2, THEN conjunct1, THEN mp, OF short]
  have lines: "scanned (NewScanner ?out)
      = [''Reference ID    : 203.0.113.5'', ''Stratum         : 3'',
         ''Last offset     : 0.125 seconds'', ''RMS offset      : 0.001'']"
    unfolding plain by (simp add: text_lines_def dropCR_def)
  have flds: "Fields ''Last offset     : 0.125 seconds''
      = [''Last'', ''offset'', '':'', ''0.125'', ''seconds'']"
    by (simp add: fields_eval)
  have "parseNTPOffsetFromChrony ?h ?out = Inr (Finite 125)"
    using parseNTPOffsetFromChrony_format [of ?h ?out, THEN conjunct1]
    unfolding lines by (simp add: flds)
  with lines show ?thesis
    by (rule conjI)
qed

lemma flt_fle_trans: "flt c a \<Longrightarrow> fle a b \<Longrightarrow> flt c b"
  by (cases c; cases a; cases b) auto

lemma math_Abs_fneg: "math_Abs (fneg x) = math_Abs x"
  by (cases x) auto

text \<open>
  C7. The classification reads the offset through \<^verbatim>\<open>math.Abs\<close> only: CRITICAL when the
  critical threshold is below the absolute offset, else WARNING when the warning threshold
  is below it, else OK. An offset and its absolute value, and an offset and its negation,
  get the same checker. With the same thresholds, an offset whose absolute value is at
  most that of another never gets the more severe status (severity in the order OK,
  WARNING, CRITICAL of the exit codes). The defaults are critical 100 and warning 50.
\<close>

theorem classify_monotonic:
  "Status (classify opts offset)
     = (if flt (Crit opts) (math_Abs offset) then CRITICAL
        else if flt (Warn opts) (math_Abs offset) then WARNING else OK)
   \<and> classify opts offset = classify opts (math_Abs offset)
   \<and> classify opts (fneg offset) = classify opts offset
   \<and> (fle (math_Abs o1) (math_Abs o2) \<longrightarrow>
        exit_code (Status (classify opts o1)) \<le> exit_code (Status (classify opts o2)))
   \<and> Crit default_opts = Finite 100 \<and> Warn default_opts = Finite 50
   \<and> map (\<lambda>ms. Status (classify default_opts (Finite ms))) [0, 50, - 50, 50.5, - 75, 100, - 100, 100.5, - 250]
       = [OK, OK, OK, WARNING, WARNING, WARNING, WARNING, CRITICAL, CRITICAL]"
proof (intro conjI impI)
  show "Status (classify opts offset)
     = (if flt (Crit opts) (math_Abs offset) then CRITICAL
        else if flt (Warn opts) (math_Abs offset) then WARNING else OK)"
    by (simp add: classify_def NewChecker_def)
  have idem: "math_Abs (math_Abs x) = math_Abs x" for x
    by (cases x) auto
  show "classify opts offset = classify opts (math_Abs offset)"
    by (simp add: classify_def idem)
  show "classify opts (fneg offset) = classify opts offset"
    by (simp add: classify_def math_Abs_fneg)
  show "Crit default_opts = Finite 100" "Warn default_opts = Finite 50"
    by (simp_all add: default_opts_def)
  show "map (\<lambda>ms. Status (classify default_opts (Finite ms))) [0, 50, - 50, 50.5, - 75, 100, - 100, 100.5, - 250]
       = [OK, OK, OK, WARNING, WARNING, WARNING, WARNING, CRITICAL, CRITICAL]"
    by (simp add: classify_def default_opts_def NewChecker_def)
next
  assume le: "fle (math_Abs o1) (math_Abs o2)"
  show "exit_code (Status (classify opts o1)) \<le> exit_code (Status (classify opts o2))"
    using flt_fle_trans [OF _ le, of "Crit opts"] flt_fle_trans [OF _ le, of "Warn opts"]
    by (auto simp: classify_def NewChecker_def)
qed


text \<open>The theorem on the offsets 60 and -120 with the default thresholds.\<close>

theorem classify_monotonic_witness:
  "fle (math_Abs (Finite 60)) (math_Abs (Finite (- 120)))
   \<and> Status (classify default_opts (Finite 60)) = WARNING
   \<and> Status (classify default_opts (Finite (- 120))) = CRITICAL
   \<and> exit_code (Status (classify default_opts (Finite 60)))
       \<le> exit_code (Status (classify default_opts (Finite (- 120))))"
proof -
  have le: "fle (math_Abs (Finite 60)) (math_Abs (Finite (- 120)))"
    by simp
  have st: "Status (classify default_opts (Finite 60)) = WARNING"
    "Status (classify default_opts (Finite (- 120))) = CRITICAL"
    by (simp_all add: classify_def default_opts_def NewChecker_def)
  note mono = classify_monotonic [of default_opts "Finite 60" "Finite 60" "Finite (- 120)",
      THEN conjunct2, THEN conjunct2, THEN conjunct2, THEN conjunct1, rule_format]
  from mono [OF le] le st show ?thesis
    by blast
qed

text \<open>
  An error in the response of any request of a run is the result of the run, reported as
  UNKNOWN; a result other than UNKNOWN comes from a complete pagination.
\<close>

lemma run_error_unknown:
  assumes "checkcloudwatchlogs_run lib rt args w = Some (res, calls)"
    and "(i, Inl e) \<in> set calls"
  shows "res = Returned (NewChecker UNKNOWN (ErrMsg e))"
proof (cases "newCloudwatchLogsPlugin lib args")
  case (Returned r)
  show ?thesis
  proof (cases r)
    case (Inl err)
    with Returned assms show ?thesis
      by (simp add: checkcloudwatchlogs_run_def)
  next
    case (Inr p)
    with Returned assms(1) obtain y where
      y: "run_loop rt p None None [] w = Some y" and c: "fst (snd y) = calls"
      and r: "res = (case fst y of
                Returned (Inl err) \<Rightarrow> Returned (NewChecker UNKNOWN (ErrMsg err))
              | Returned (Inr messages) \<Rightarrow> Returned (evaluate p messages)
              | Exited n \<Rightarrow> Exited n
              | Panicked \<Rightarrow> Panicked)"
      by (auto simp: checkcloudwatchlogs_run_def cloudwatchLogsPlugin_run_def
          split: option.splits outcome.splits sum.splits)
    from run_loop_trace [OF y] c assms(2) have "fst y = Returned (Inl e)"
      by auto
    with r show ?thesis
      by simp
  qed
next
  case (Exited n)
  with assms show ?thesis
    by (simp add: checkcloudwatchlogs_run_def)
next
  case Panicked
  with assms show ?thesis
    by (simp add: checkcloudwatchlogs_run_def)
qed

lemma run_measured:
  assumes "checkcloudwatchlogs_run lib rt args w = Some (Returned ckr, calls)"
    and "Status ckr \<noteq> UNKNOWN"
  shows "\<exists>p messages. newCloudwatchLogsPlugin lib args = Returned (Inr p)
     \<and> pages None calls \<and> elems messages = concat (map response_messages calls)
     \<and> ckr = evaluate p messages"
proof -
  from assms obtain p where p: "newCloudwatchLogsPlugin lib args = Returned (Inr p)"
    by (auto simp: checkcloudwatchlogs_run_def NewChecker_def split: outcome.splits sum.splits)
  with assms obtain messages w' where
    y: "run_loop rt p None None [] w = Some (Returned (Inr messages), calls, w')"
    and c: "ckr = evaluate p messages"
    by (auto simp: checkcloudwatchlogs_run_def cloudwatchLogsPlugin_run_def NewChecker_def
        split: option.splits outcome.splits sum.splits)
  from run_loop_trace [OF y] have "pages None calls"
    "elems messages = concat (map response_messages calls)"
    by auto
  with p c show ?thesis
    by blast
qed

lemma run_session_failure:
  assumes "ParseArgs lib args = Inr opts" and "NewSession lib = Inl e"
  shows "checkcloudwatchlogs_run lib rt args w = Some (Returned (NewChecker UNKNOWN (ErrMsg e)), [])"
  using assms
  by (simp add: checkcloudwatchlogs_run_def newCloudwatchLogsPlugin_def createService_def)

text \<open>
  The diagnostic command gives an offset exactly when the pipe, the start, the parser and
  the wait all succeed; otherwise the function returns the first of their errors.
\<close>

lemma offset_from_cases:
  "offset_from cmd parse =
     (case pipe_err cmd of Some e \<Rightarrow> Returned (Inl e) | None \<Rightarrow>
      case start_err cmd of Some e \<Rightarrow> Returned (Inl e) | None \<Rightarrow>
      case parse (stdout cmd) of Inl e \<Rightarrow> Returned (Inl e) | Inr v \<Rightarrow>
      case wait_err cmd of Some e \<Rightarrow> Returned (Inl e) | None \<Rightarrow> Returned (Inr v))"
  by (auto simp: offset_from_def withCmd_def split: option.splits sum.splits)

lemma offset_from_measured:
  "offset_from cmd parse = Returned (Inr v) \<longleftrightarrow>
     pipe_err cmd = None \<and> start_err cmd = None \<and> parse (stdout cmd) = Inr v \<and> wait_err cmd = None"
  by (auto simp: offset_from_cases split: option.splits sum.splits)

lemma detect_ok:
  assumes "detectNTPDname h = Returned (name, None)"
  shows "(if Getuid h = 0
          then pipe_err (lsof h) = None \<and> start_err (lsof h) = None \<and> wait_err (lsof h) = None
             \<and> detect_lsof (stdout (lsof h)) [] = Returned (None, name)
          else pipe_err (ps h) = None \<and> start_err (ps h) = None \<and> wait_err (ps h) = None
             \<and> detect_ps h (stdout (ps h)) [] = Returned (None, name))"
  using assms
  by (auto simp: detectNTPDname_def withCmd_def split: option.splits outcome.splits if_splits)

lemma getNtpOffset_measured:
  assumes "getNtpOffset h = Returned (Inr v)"
  shows "\<exists>name cmd parse. detectNTPDname h = Returned (name, None)
     \<and> ((name = ''ntpd'' \<and> cmd = ntpq h \<and> parse = parseNTPOffsetFromNTPD h)
        \<or> (name = ''chronyd'' \<and> cmd = chronyc h \<and> parse = parseNTPOffsetFromChrony h))
     \<and> pipe_err cmd = None \<and> start_err cmd = None \<and> wait_err cmd = None
     \<and> parse (stdout cmd) = Inr v"
proof -
  from assms obtain name where d: "detectNTPDname h = Returned (name, None)"
    by (auto simp: getNtpOffset_def split: outcome.splits option.splits)
  show ?thesis
  proof (cases "name = ''ntpd''")
    case True
    with assms d have "offset_from (ntpq h) (parseNTPOffsetFromNTPD h) = Returned (Inr v)"
      by (simp add: getNtpOffset_def getNTPOffsetFromNTPD_def)
    with d True show ?thesis
      unfolding offset_from_measured by blast
  next
    case False
    with assms d have c: "name = ''chronyd''"
      by (auto simp: getNtpOffset_def split: if_splits)
    with assms d have "offset_from (chronyc h) (parseNTPOffsetFromChrony h) = Returned (Inr v)"
      by (simp add: getNtpOffset_def getNTPOffsetFromChrony_def)
    with d c show ?thesis
      unfolding offset_from_measured by blast
  qed
qed

lemma ntp_run_unknown:
  assumes "flags_ParseArgs h args = Inr opts" and "getNtpOffset h = Returned (Inl e)"
  shows "checkntpoffset_run h args = Returned (Unknown (ErrMsg e))"
  using assms by (simp add: checkntpoffset_run_def)

lemma classify_not_unknown: "Status (classify opts v) \<noteq> UNKNOWN"
  by (simp add: classify_def NewChecker_def)

lemma ntp_run_measured:
  assumes "checkntpoffset_run h args = Returned ckr" and "Status ckr \<noteq> UNKNOWN"
  shows "\<exists>opts v. flags_ParseArgs h args = Inr opts \<and> getNtpOffset h = Returned (Inr v)
     \<and> ckr = classify opts v"
  using assms
  by (auto simp: checkntpoffset_run_def Unknown_def NewChecker_def
      split: sum.splits outcome.splits)

lemma withCmd_never_exits:
  assumes "\<And>out v n. fn out v \<noteq> Exited n"
  shows "withCmd cmd fn vars \<noteq> Exited n"
  using assms [of "stdout cmd" vars]
  by (auto simp: withCmd_def split: option.splits outcome.splits)

lemma detectNTPDname_never_exits: "detectNTPDname h \<noteq> Exited n"
proof -
  have l: "detect_lsof out v \<noteq> Exited n" for out v n
    by (auto simp: detect_lsof_def Let_def split: option.splits)
  have p: "detect_ps h out v \<noteq> Exited n" for out v n
    by (simp add: detect_ps_def)
  show ?thesis
    using withCmd_never_exits [of detect_lsof "lsof h" "[]" n, OF l]
      withCmd_never_exits [of "detect_ps h" "ps h" "[]" n, OF p]
    by (auto simp: detectNTPDname_def split: outcome.splits)
qed

lemma offset_from_returns: "\<exists>r. offset_from cmd parse = Returned r"
  by (auto simp: offset_from_cases split: option.splits sum.splits)

lemma getNtpOffset_never_exits: "getNtpOffset h \<noteq> Exited n"
  using detectNTPDname_never_exits [of h]
    offset_from_returns [of "ntpq h" "parseNTPOffsetFromNTPD h"]
    offset_from_returns [of "chronyc h" "parseNTPOffsetFromChrony h"]
  by (auto simp: getNtpOffset_def getNTPOffsetFromNTPD_def getNTPOffsetFromChrony_def
      split: outcome.splits option.splits)

lemma getNtpOffset_panics_iff:
  "getNtpOffset h = Panicked \<longleftrightarrow>
     Getuid h = 0 \<and> pipe_err (lsof h) = None \<and> start_err (lsof h) = None
       \<and> detect_lsof (stdout (lsof h)) [] = Panicked"
proof -
  have "getNtpOffset h = Panicked \<longleftrightarrow> detectNTPDname h = Panicked"
    using offset_from_returns [of "ntpq h" "parseNTPOffsetFromNTPD h"]
      offset_from_returns [of "chronyc h" "parseNTPOffsetFromChrony h"]
    by (auto simp: getNtpOffset_def getNTPOffsetFromNTPD_def getNTPOffsetFromChrony_def
        split: outcome.splits option.splits)
  also have "\<dots> \<longleftrightarrow> Getuid h = 0 \<and> pipe_err (lsof h) = None \<and> start_err (lsof h) = None
       \<and> detect_lsof (stdout (lsof h)) [] = Panicked"
    by (auto simp: detectNTPDname_def withCmd_def detect_ps_def
        split: outcome.splits option.splits)
  finally show ?thesis .
qed


text \<open>
  The errors that are returned, in both plugins; the panic of the privileged detection,
  at the end of this section, is not among them. In the CloudWatch Logs plugin an error
  returned by a request, at whatever turn of
  the loop, ends the loop with that error, and the result of the plugin is then UNKNOWN
  with the text of the error; so is a failure to create the session. A result other than
  UNKNOWN is the evaluation of a complete pagination, in which no request failed. In the
  NTP plugin every error that \<^verbatim>\<open>getNtpOffset\<close> returns gives UNKNOWN with the text of the
  error, and a result other than UNKNOWN is the classification of an offset that was
  measured: the detection ended without error on \<open>ntpd\<close> or \<open>chronyd\<close>, the diagnostic
  command of that daemon was piped, started and waited for without error, and its parser
  returned the offset. UNKNOWN is not CRITICAL. None of this depends on the thresholds.
\<close>

theorem failure_is_unknown:
  "(\<forall>res calls i e.
       checkcloudwatchlogs_run lib rt args w = Some (res, calls) \<and> (i, Inl e) \<in> set calls \<longrightarrow>
         res = Returned (NewChecker UNKNOWN (ErrMsg e)))
   \<and> (\<forall>tok msgs calls err w1 w2.
         Service p (filterInput rt p tok w1) w1 = (Inl err, w2) \<longrightarrow>
           run_loop rt p tok msgs calls w1
             = Some (Returned (Inl err), calls @ [(filterInput rt p tok w1, Inl err)], w2))
   \<and> (\<forall>opts e.
         ParseArgs lib args = Inr opts \<and> NewSession lib = Inl e \<longrightarrow>
           checkcloudwatchlogs_run lib rt args w
             = Some (Returned (NewChecker UNKNOWN (ErrMsg e)), []))
   \<and> (\<forall>ckr calls.
         checkcloudwatchlogs_run lib rt args w = Some (Returned ckr, calls)
           \<and> Status ckr \<noteq> UNKNOWN \<longrightarrow>
         (\<exists>q messages. newCloudwatchLogsPlugin lib args = Returned (Inr q)
            \<and> pages None calls \<and> elems messages = concat (map response_messages calls)
            \<and> ckr = evaluate q messages))
   \<and> (\<forall>opts e.
         flags_ParseArgs h hargs = Inr opts \<and> getNtpOffset h = Returned (Inl e) \<longrightarrow>
           checkntpoffset_run h hargs = Returned (Unknown (ErrMsg e)))
   \<and> (\<forall>ckr.
         checkntpoffset_run h hargs = Returned ckr \<and> Status ckr \<noteq> UNKNOWN \<longrightarrow>
         (\<exists>opts name cmd parse v.
            flags_ParseArgs h hargs = Inr opts
            \<and> detectNTPDname h = Returned (name, None)
            \<and> ((name = ''ntpd'' \<and> cmd = ntpq h \<and> parse = parseNTPOffsetFromNTPD h)
               \<or> (name = ''chronyd'' \<and> cmd = chronyc h \<and> parse = parseNTPOffsetFromChrony h))
            \<and> pipe_err cmd = None \<and> start_err cmd = None \<and> wait_err cmd = None
            \<and> parse (stdout cmd) = Inr v
            \<and> ckr = classify opts v))
   \<and> (\<forall>name.
         detectNTPDname h = Returned (name, None) \<longrightarrow>
         (if Getuid h = 0
          then pipe_err (lsof h) = None \<and> start_err (lsof h) = None \<and> wait_err (lsof h) = None
             \<and> detect_lsof (stdout (lsof h)) [] = Returned (None, name)
          else pipe_err (ps h) = None \<and> start_err (ps h) = None \<and> wait_err (ps h) = None
             \<and> detect_ps h (stdout (ps h)) [] = Returned (None, name)))
   \<and> Status (Unknown m) = UNKNOWN \<and> UNKNOWN \<noteq> CRITICAL"
proof (intro conjI allI impI)
  fix res calls i e
  assume "checkcloudwatchlogs_run lib rt args w = Some (res, calls) \<and> (i, Inl e) \<in> set calls"
  then have "checkcloudwatchlogs_run lib rt args w = Some (res, calls)"
    and "(i, Inl e) \<in> set calls"
    by simp_all
  then show "res = Returned (NewChecker UNKNOWN (ErrMsg e))"
    by (rule run_error_unknown)
next
  fix tok msgs calls err w1 w2
  assume "Service p (filterInput rt p tok w1) w1 = (Inl err, w2)"
  then show "run_loop rt p tok msgs calls w1
      = Some (Returned (Inl err), calls @ [(filterInput rt p tok w1, Inl err)], w2)"
    by (rule run_loop_error)
next
  fix opts e
  assume "ParseArgs lib args = Inr opts \<and> NewSession lib = Inl e"
  then have "ParseArgs lib args = Inr opts" and "NewSession lib = Inl e"
    by simp_all
  then show "checkcloudwatchlogs_run lib rt args w
      = Some (Returned (NewChecker UNKNOWN (ErrMsg e)), [])"
    by (rule run_session_failure)
next
  fix ckr calls
  assume "checkcloudwatchlogs_run lib rt args w = Some (Returned ckr, calls)
      \<and> Status ckr \<noteq> UNKNOWN"
  then have "checkcloudwatchlogs_run lib rt args w = Some (Returned ckr, calls)"
    and "Status ckr \<noteq> UNKNOWN"
    by simp_all
  then show "\<exists>q messages. newCloudwatchLogsPlugin lib args = Returned (Inr q)
      \<and> pages None calls \<and> elems messages = concat (map response_messages calls)
      \<and> ckr = evaluate q messages"
    by (rule run_measured)
next
  fix opts e
  assume "flags_ParseArgs h hargs = Inr opts \<and> getNtpOffset h = Returned (Inl e)"
  then have "flags_ParseArgs h hargs = Inr opts" and "getNtpOffset h = Returned (Inl e)"
    by simp_all
  then show "checkntpoffset_run h hargs = Returned (Unknown (ErrMsg e))"
    by (rule ntp_run_unknown)
next
  fix ckr
  assume a: "checkntpoffset_run h hargs = Returned ckr \<and> Status ckr \<noteq> UNKNOWN"
  then have "checkntpoffset_run h hargs = Returned ckr" and "Status ckr \<noteq> UNKNOWN"
    by simp_all
  from ntp_run_measured [OF this] obtain opts v where o: "flags_ParseArgs h hargs = Inr opts"
    "getNtpOffset h = Returned (Inr v)" "ckr = classify opts v"
    by blast
  from getNtpOffset_measured [OF o(2)] obtain name cmd parse where
    "detectNTPDname h = Returned (name, None)"
    "(name = ''ntpd'' \<and> cmd = ntpq h \<and> parse = parseNTPOffsetFromNTPD h)
       \<or> (name = ''chronyd'' \<and> cmd = chronyc h \<and> parse = parseNTPOffsetFromChrony h)"
    "pipe_err cmd = None" "start_err cmd = None" "wait_err cmd = None"
    "parse (stdout cmd) = Inr v"
    by blast
  with o(1,3) show "\<exists>opts name cmd parse v.
      flags_ParseArgs h hargs = Inr opts
      \<and> detectNTPDname h = Returned (name, None)
      \<and> ((name = ''ntpd'' \<and> cmd = ntpq h \<and> parse = parseNTPOffsetFromNTPD h)
         \<or> (name = ''chronyd'' \<and> cmd = chronyc h \<and> parse = parseNTPOffsetFromChrony h))
      \<and> pipe_err cmd = None \<and> start_err cmd = None \<and> wait_err cmd = None
      \<and> parse (stdout cmd) = Inr v
      \<and> ckr = classify opts v"
    by blast
next
  fix name
  assume "detectNTPDname h = Returned (name, None)"
  then show "if Getuid h = 0
      then pipe_err (lsof h) = None \<and> start_err (lsof h) = None \<and> wait_err (lsof h) = None
         \<and> detect_lsof (stdout (lsof h)) [] = Returned (None, name)
      else pipe_err (ps h) = None \<and> start_err (ps h) = None \<and> wait_err (ps h) = None
         \<and> detect_ps h (stdout (ps h)) [] = Returned (None, name)"
    by (rule detect_ok)
next
  show "Status (Unknown m) = UNKNOWN"
    by (simp add: Unknown_def NewChecker_def)
  show "UNKNOWN \<noteq> CRITICAL"
    by simp
qed

text \<open>
  The theorem on two runs with both thresholds 0. A service that answers the first request
  with one message and a token and fails on the second: the loop ends at the second turn
  with the error. A host where \<^verbatim>\<open>ps\<close> shows chronyd and \<^verbatim>\<open>chronyc\<close> does not start:
  the result is UNKNOWN with the error of the start.
\<close>

theorem failure_is_unknown_witness:
  "run_loop \<lparr>Now = (\<lambda>w. 1700000000), Sleep = (\<lambda>ms w. w)\<rparr>
       \<lparr>Service = (\<lambda>input (n::nat).
          (if FilterLogEventsInput.NextToken input = None
           then Inr \<lparr>Events = [\<lparr>Message = Some ''a''\<rparr>], NextToken = Some ''t1''\<rparr>
           else Inl (External ''RequestError: send request failed''), Suc n)),
        LogGroupName = ''app'', Pattern = ''ERROR'', WarningOver = 0, CriticalOver = 0\<rparr>
       (Some ''t1'') (Some [''a'']) [] 1
     = Some (Returned (Inl (External ''RequestError: send request failed'')),
             [(\<lparr>StartTime = 1699999700000, LogGroupName = ''app'', NextToken = Some ''t1'',
                 FilterPattern = ''ERROR''\<rparr>,
               Inl (External ''RequestError: send request failed''))],
             2)
   \<and> checkntpoffset_run
       \<lparr>flags_ParseArgs = (\<lambda>args. Inr \<lparr>Crit = Finite 0, Warn = Finite 0\<rparr>),
      Getuid = 1000,
      lsof = \<lparr>pipe_err = None, start_err = None, stdout = \<lparr>content = [], read_err = None\<rparr>, wait_err = None\<rparr>,
      ps = \<lparr>pipe_err = None, start_err = None, stdout = \<lparr>content = ''COMMAND\<newline>systemd\<newline>chronyd\<newline>'', read_err = None\<rparr>, wait_err = None\<rparr>,
      ntpq = \<lparr>pipe_err = None, start_err = None, stdout = \<lparr>content = [], read_err = None\<rparr>, wait_err = None\<rparr>,
      chronyc = \<lparr>pipe_err = None, start_err = Some (External ''exec: chronyc: permission denied''), stdout = \<lparr>content = [], read_err = None\<rparr>, wait_err = None\<rparr>,
      LookPath = (\<lambda>name. Inr name),
      ParseFloat = (\<lambda>s. if s = ''12.5'' then Inr (Finite 12.5) else Inl (NumError ''ParseFloat'' s ErrSyntax)),
      round64 = Finite\<rparr>
       [''-w'', ''0'', ''-c'', ''0'']
     = Returned (Unknown (ErrMsg (External ''exec: chronyc: permission denied'')))"
proof -
  let ?rt = "\<lparr>Now = (\<lambda>w::nat. 1700000000::int), Sleep = (\<lambda>(ms::nat) (w::nat). w)\<rparr>"
  let ?p = "\<lparr>Service = (\<lambda>input (n::nat).
          (if FilterLogEventsInput.NextToken input = None
           then Inr \<lparr>Events = [\<lparr>Message = Some ''a''\<rparr>], NextToken = Some ''t1''\<rparr>
           else Inl (External ''RequestError: send request failed''), Suc n)),
        LogGroupName = ''app'', Pattern = ''ERROR'', WarningOver = 0, CriticalOver = 0\<rparr>"
  let ?h = "\<lparr>flags_ParseArgs = (\<lambda>args. Inr \<lparr>Crit = Finite 0, Warn = Finite 0\<rparr>),
      Getuid = 1000,
      lsof = \<lparr>pipe_err = None, start_err = None, stdout = \<lparr>content = [], read_err = None\<rparr>, wait_err = None\<rparr>,
      ps = \<lparr>pipe_err = None, start_err = None, stdout = \<lparr>content = ''COMMAND\<newline>systemd\<newline>chronyd\<newline>'', read_err = None\<rparr>, wait_err = None\<rparr>,
      ntpq = \<lparr>pipe_err = None, start_err = None, stdout = \<lparr>content = [], read_err = None\<rparr>, wait_err = None\<rparr>,
      chronyc = \<lparr>pipe_err = None, start_err = Some (External ''exec: chronyc: permission denied''), stdout = \<lparr>content = [], read_err = None\<rparr>, wait_err = None\<rparr>,
      LookPath = (\<lambda>name. Inr name),
      ParseFloat = (\<lambda>s. if s = ''12.5'' then Inr (Finite 12.5) else Inl (NumError ''ParseFloat'' s ErrSyntax)),
      round64 = Finite\<rparr>"
  have turn: "Service ?p (filterInput ?rt ?p (Some ''t1'') 1) 1
      = (Inl (External ''RequestError: send request failed''), 2)"
    by (simp add: filterInput_def)
  note loop = failure_is_unknown [where p = ?p and rt = ?rt,
      THEN conjunct2, THEN conjunct1, rule_format, OF turn]
  have one: "run_loop ?rt ?p (Some ''t1'') (Some [''a'']) [] 1
     = Some (Returned (Inl (External ''RequestError: send request failed'')),
             [(\<lparr>StartTime = 1699999700000, LogGroupName = ''app'', NextToken = Some ''t1'',
                 FilterPattern = ''ERROR''\<rparr>,
               Inl (External ''RequestError: send request failed''))],
             2)"
    using loop [of "Some [''a'']" "[]"] by (simp add: filterInput_def)
  have lines: "scanned (NewScanner \<lparr>content = ''COMMAND\<newline>systemd\<newline>chronyd\<newline>'', read_err = None\<rparr>)
      = [''COMMAND'', ''systemd'', ''chronyd'']"
    by (simp add: scan_eval)
  have detect: "detectNTPDname ?h = Returned (''chronyd'', None)"
    by (simp add: detectNTPDname_def withCmd_def detect_ps_def lines)
  have offset: "getNtpOffset ?h = Returned (Inl (External ''exec: chronyc: permission denied''))"
    unfolding getNtpOffset_def detect
    by (simp add: getNTPOffsetFromChrony_def offset_from_def withCmd_def)
  have pre: "flags_ParseArgs ?h [''-w'', ''0'', ''-c'', ''0'']
        = Inr \<lparr>Crit = Finite 0, Warn = Finite 0\<rparr>
      \<and> getNtpOffset ?h = Returned (Inl (External ''exec: chronyc: permission denied''))"
    using offset by simp
  note ntp = failure_is_unknown [where h = ?h and hargs = "[''-w'', ''0'', ''-c'', ''0'']",
      THEN conjunct2, THEN conjunct2, THEN conjunct2, THEN conjunct2, THEN conjunct1,
      rule_format, OF pre]
  from one ntp show ?thesis
    by (rule conjI)
qed

text \<open>
  C4 fails on the privileged detection. The callback that reads the output of
  \<^verbatim>\<open>lsof\<close> returns the error \<open>it seems no ntp daemon is running\<close> for an empty second
  line, and \<^verbatim>\<open>run\<close> reports it as UNKNOWN. For a second line that holds blanks only,
  \<^verbatim>\<open>strings.Fields\<close> gives no field and \<^verbatim>\<open>fields[0]\<close> is out of range: the callback
  panics, \<^verbatim>\<open>getNtpOffset\<close> returns neither an offset nor an error, and \<^verbatim>\<open>run\<close> ends
  without a checker, so that this failure of the detection is not reported as UNKNOWN.
\<close>

theorem detection_panic_not_unknown:
  "Fields ''   '' = []
   \<and> detect_lsof \<lparr>content = ''COMMAND PID USER\<newline>   \<newline>'', read_err = None\<rparr> [] = Panicked
   \<and> getNtpOffset
       \<lparr>flags_ParseArgs = (\<lambda>args. Inr \<lparr>Crit = Finite 100, Warn = Finite 50\<rparr>),
      Getuid = 0,
      lsof = \<lparr>pipe_err = None, start_err = None, stdout = \<lparr>content = ''COMMAND PID USER\<newline>   \<newline>'', read_err = None\<rparr>, wait_err = None\<rparr>,
      ps = \<lparr>pipe_err = None, start_err = None, stdout = \<lparr>content = [], read_err = None\<rparr>, wait_err = None\<rparr>,
      ntpq = \<lparr>pipe_err = None, start_err = None, stdout = \<lparr>content = [], read_err = None\<rparr>, wait_err = None\<rparr>,
      chronyc = \<lparr>pipe_err = None, start_err = None, stdout = \<lparr>content = [], read_err = None\<rparr>, wait_err = None\<rparr>,
      LookPath = (\<lambda>name. Inr name),
      ParseFloat = (\<lambda>s. if s = ''12.5'' then Inr (Finite 12.5) else Inl (NumError ''ParseFloat'' s ErrSyntax)),
      round64 = Finite\<rparr>
     = Panicked
   \<and> checkntpoffset_run
       \<lparr>flags_ParseArgs = (\<lambda>args. Inr \<lparr>Crit = Finite 100, Warn = Finite 50\<rparr>),
      Getuid = 0,
      lsof = \<lparr>pipe_err = None, start_err = None, stdout = \<lparr>content = ''COMMAND PID USER\<newline>   \<newline>'', read_err = None\<rparr>, wait_err = None\<rparr>,
      ps = \<lparr>pipe_err = None, start_err = None, stdout = \<lparr>content = [], read_err = None\<rparr>, wait_err = None\<rparr>,
      ntpq = \<lparr>pipe_err = None, start_err = None, stdout = \<lparr>content = [], read_err = None\<rparr>, wait_err = None\<rparr>,
      chronyc = \<lparr>pipe_err = None, start_err = None, stdout = \<lparr>content = [], read_err = None\<rparr>, wait_err = None\<rparr>,
      LookPath = (\<lambda>name. Inr name),
      ParseFloat = (\<lambda>s. if s = ''12.5'' then Inr (Finite 12.5) else Inl (NumError ''ParseFloat'' s ErrSyntax)),
      round64 = Finite\<rparr>
       [''-w'', ''50'', ''-c'', ''100'']
     = Panicked
   \<and> checkntpoffset_run
       \<lparr>flags_ParseArgs = (\<lambda>args. Inr \<lparr>Crit = Finite 100, Warn = Finite 50\<rparr>),
      Getuid = 0,
      lsof = \<lparr>pipe_err = None, start_err = None, stdout = \<lparr>content = ''COMMAND PID USER\<newline>\<newline>'', read_err = None\<rparr>, wait_err = None\<rparr>,
      ps = \<lparr>pipe_err = None, start_err = None, stdout = \<lparr>content = [], read_err = None\<rparr>, wait_err = None\<rparr>,
      ntpq = \<lparr>pipe_err = None, start_err = None, stdout = \<lparr>content = [], read_err = None\<rparr>, wait_err = None\<rparr>,
      chronyc = \<lparr>pipe_err = None, start_err = None, stdout = \<lparr>content = [], read_err = None\<rparr>, wait_err = None\<rparr>,
      LookPath = (\<lambda>name. Inr name),
      ParseFloat = (\<lambda>s. if s = ''12.5'' then Inr (Finite 12.5) else Inl (NumError ''ParseFloat'' s ErrSyntax)),
      round64 = Finite\<rparr>
       [''-w'', ''50'', ''-c'', ''100'']
     = Returned (Unknown (ErrMsg noNtpErr))"
proof -
  have flds: "Fields ''   '' = []"
    by (simp add: fields_eval)
  have bad: "detect_lsof \<lparr>content = ''COMMAND PID USER\<newline>   \<newline>'', read_err = None\<rparr> [] = Panicked"
    by (simp add: detect_lsof_def NewScanner_def Scan_def ScanLines_def MaxScanTokenSize_def
        dropCR_def Let_def flds elem_at_def)
  have blank: "detect_lsof \<lparr>content = ''COMMAND PID USER\<newline>\<newline>'', read_err = None\<rparr> []
      = Returned (Some noNtpErr, [])"
    by (simp add: detect_lsof_def NewScanner_def Scan_def ScanLines_def MaxScanTokenSize_def
        dropCR_def Let_def)
  have offset: "getNtpOffset
       \<lparr>flags_ParseArgs = (\<lambda>args. Inr \<lparr>Crit = Finite 100, Warn = Finite 50\<rparr>),
      Getuid = 0,
      lsof = \<lparr>pipe_err = None, start_err = None, stdout = \<lparr>content = ''COMMAND PID USER\<newline>   \<newline>'', read_err = None\<rparr>, wait_err = None\<rparr>,
      ps = \<lparr>pipe_err = None, start_err = None, stdout = \<lparr>content = [], read_err = None\<rparr>, wait_err = None\<rparr>,
      ntpq = \<lparr>pipe_err = None, start_err = None, stdout = \<lparr>content = [], read_err = None\<rparr>, wait_err = None\<rparr>,
      chronyc = \<lparr>pipe_err = None, start_err = None, stdout = \<lparr>content = [], read_err = None\<rparr>, wait_err = None\<rparr>,
      LookPath = (\<lambda>name. Inr name),
      ParseFloat = (\<lambda>s. if s = ''12.5'' then Inr (Finite 12.5) else Inl (NumError ''ParseFloat'' s ErrSyntax)),
      round64 = Finite\<rparr>
     = Panicked"
    by (simp add: getNtpOffset_def detectNTPDname_def withCmd_def bad)
  have run: "checkntpoffset_run
       \<lparr>flags_ParseArgs = (\<lambda>args. Inr \<lparr>Crit = Finite 100, Warn = Finite 50\<rparr>),
      Getuid = 0,
      lsof = \<lparr>pipe_err = None, start_err = None, stdout = \<lparr>content = ''COMMAND PID USER\<newline>   \<newline>'', read_err = None\<rparr>, wait_err = None\<rparr>,
      ps = \<lparr>pipe_err = None, start_err = None, stdout = \<lparr>content = [], read_err = None\<rparr>, wait_err = None\<rparr>,
      ntpq = \<lparr>pipe_err = None, start_err = None, stdout = \<lparr>content = [], read_err = None\<rparr>, wait_err = None\<rparr>,
      chronyc = \<lparr>pipe_err = None, start_err = None, stdout = \<lparr>content = [], read_err = None\<rparr>, wait_err = None\<rparr>,
      LookPath = (\<lambda>name. Inr name),
      ParseFloat = (\<lambda>s. if s = ''12.5'' then Inr (Finite 12.5) else Inl (NumError ''ParseFloat'' s ErrSyntax)),
      round64 = Finite\<rparr>
       [''-w'', ''50'', ''-c'', ''100'']
     = Panicked"
    unfolding checkntpoffset_run_def offset by simp
  have sibling: "checkntpoffset_run
       \<lparr>flags_ParseArgs = (\<lambda>args. Inr \<lparr>Crit = Finite 100, Warn = Finite 50\<rparr>),
      Getuid = 0,
      lsof = \<lparr>pipe_err = None, start_err = None, stdout = \<lparr>content = ''COMMAND PID USER\<newline>\<newline>'', read_err = None\<rparr>, wait_err = None\<rparr>,
      ps = \<lparr>pipe_err = None, start_err = None, stdout = \<lparr>content = [], read_err = None\<rparr>, wait_err = None\<rparr>,
      ntpq = \<lparr>pipe_err = None, start_err = None, stdout = \<lparr>content = [], read_err = None\<rparr>, wait_err = None\<rparr>,
      chronyc = \<lparr>pipe_err = None, start_err = None, stdout = \<lparr>content = [], read_err = None\<rparr>, wait_err = None\<rparr>,
      LookPath = (\<lambda>name. Inr name),
      ParseFloat = (\<lambda>s. if s = ''12.5'' then Inr (Finite 12.5) else Inl (NumError ''ParseFloat'' s ErrSyntax)),
      round64 = Finite\<rparr>
       [''-w'', ''50'', ''-c'', ''100'']
     = Returned (Unknown (ErrMsg noNtpErr))"
    by (simp add: checkntpoffset_run_def getNtpOffset_def detectNTPDname_def withCmd_def blank)
  from flds bad offset run sibling show ?thesis
    by (intro conjI)
qed

end
